theory Spec2Isabelle
  imports Complex_Main "HOL-Library.Word" "HOL-Library.Multiset"
begin

section \<open>JavaScript values\<close>

text \<open>
  A JavaScript string is a sequence of UTF-16 code units. String literals of the source
  are written \<open>js ''...''\<close>.
\<close>

type_synonym jsstring = "16 word list"

definition js :: "string \<Rightarrow> jsstring" where
  "js s = map of_char s"

text \<open>
  A string is read as code points: a high surrogate followed by a low surrogate is one
  code point above U+FFFF, and every other code unit, a lone surrogate too, is the code
  point of its own value.
\<close>

definition is_high_surrogate :: "16 word \<Rightarrow> bool" where
  "is_high_surrogate c = (0xD800 \<le> c \<and> c \<le> 0xDBFF)"

definition is_low_surrogate :: "16 word \<Rightarrow> bool" where
  "is_low_surrogate c = (0xDC00 \<le> c \<and> c \<le> 0xDFFF)"

fun code_points :: "jsstring \<Rightarrow> nat list" where
  "code_points [] = []"
| "code_points [c] = [unat c]"
| "code_points (c # d # s) =
     (if is_high_surrogate c \<and> is_low_surrogate d
      then (0x10000 + (unat c - 0xD800) * 0x400 + (unat d - 0xDC00)) # code_points s
      else unat c # code_points (d # s))"

definition code_units :: "nat \<Rightarrow> jsstring" where
  "code_units cp =
     (if cp < 0x10000 then [of_nat cp]
      else [of_nat (0xD800 + (cp - 0x10000) div 0x400),
            of_nat (0xDC00 + (cp - 0x10000) mod 0x400)])"

text \<open>
  The case data of the Unicode Character Database, version 14.0. \<open>lower_table\<close> holds
  the simple lower-case mappings above U+007F as ranges \<open>(first, last, step, target)\<close>:
  the code points \<open>first\<close>, \<open>first + step\<close>, ... up to \<open>last\<close> map to \<open>target\<close>,
  \<open>target + step\<close>, ... The other two tables hold the ranges of the code points
  with the properties Case_Ignorable and Cased.
\<close>

definition lower_table :: "(nat \<times> nat \<times> nat \<times> nat) list" where
  "lower_table =
     [
      (0xC0, 0xD6, 1, 0xE0), (0xD8, 0xDE, 1, 0xF8), (0x100, 0x12E, 2, 0x101),
      (0x132, 0x136, 2, 0x133), (0x139, 0x147, 2, 0x13A), (0x14A, 0x176, 2, 0x14B),
      (0x178, 0x178, 1, 0xFF), (0x179, 0x17D, 2, 0x17A), (0x181, 0x181, 1, 0x253),
      (0x182, 0x184, 2, 0x183), (0x186, 0x186, 1, 0x254), (0x187, 0x187, 1, 0x188),
      (0x189, 0x18A, 1, 0x256), (0x18B, 0x18B, 1, 0x18C), (0x18E, 0x18E, 1, 0x1DD),
      (0x18F, 0x18F, 1, 0x259), (0x190, 0x190, 1, 0x25B), (0x191, 0x191, 1, 0x192),
      (0x193, 0x193, 1, 0x260), (0x194, 0x194, 1, 0x263), (0x196, 0x196, 1, 0x269),
      (0x197, 0x197, 1, 0x268), (0x198, 0x198, 1, 0x199), (0x19C, 0x19C, 1, 0x26F),
      (0x19D, 0x19D, 1, 0x272), (0x19F, 0x19F, 1, 0x275), (0x1A0, 0x1A4, 2, 0x1A1),
      (0x1A6, 0x1A6, 1, 0x280), (0x1A7, 0x1A7, 1, 0x1A8), (0x1A9, 0x1A9, 1, 0x283),
      (0x1AC, 0x1AC, 1, 0x1AD), (0x1AE, 0x1AE, 1, 0x288), (0x1AF, 0x1AF, 1, 0x1B0),
      (0x1B1, 0x1B2, 1, 0x28A), (0x1B3, 0x1B5, 2, 0x1B4), (0x1B7, 0x1B7, 1, 0x292),
      (0x1B8, 0x1B8, 1, 0x1B9), (0x1BC, 0x1BC, 1, 0x1BD), (0x1C4, 0x1C4, 1, 0x1C6),
      (0x1C5, 0x1C5, 1, 0x1C6), (0x1C7, 0x1C7, 1, 0x1C9), (0x1C8, 0x1C8, 1, 0x1C9),
      (0x1CA, 0x1CA, 1, 0x1CC), (0x1CB, 0x1DB, 2, 0x1CC), (0x1DE, 0x1EE, 2, 0x1DF),
      (0x1F1, 0x1F1, 1, 0x1F3), (0x1F2, 0x1F4, 2, 0x1F3), (0x1F6, 0x1F6, 1, 0x195),
      (0x1F7, 0x1F7, 1, 0x1BF), (0x1F8, 0x21E, 2, 0x1F9), (0x220, 0x220, 1, 0x19E),
      (0x222, 0x232, 2, 0x223), (0x23A, 0x23A, 1, 0x2C65), (0x23B, 0x23B, 1, 0x23C),
      (0x23D, 0x23D, 1, 0x19A), (0x23E, 0x23E, 1, 0x2C66), (0x241, 0x241, 1, 0x242),
      (0x243, 0x243, 1, 0x180), (0x244, 0x244, 1, 0x289), (0x245, 0x245, 1, 0x28C),
      (0x246, 0x24E, 2, 0x247), (0x370, 0x372, 2, 0x371), (0x376, 0x376, 1, 0x377),
      (0x37F, 0x37F, 1, 0x3F3), (0x386, 0x386, 1, 0x3AC), (0x388, 0x38A, 1, 0x3AD),
      (0x38C, 0x38C, 1, 0x3CC), (0x38E, 0x38F, 1, 0x3CD), (0x391, 0x3A1, 1, 0x3B1),
      (0x3A3, 0x3AB, 1, 0x3C3), (0x3CF, 0x3CF, 1, 0x3D7), (0x3D8, 0x3EE, 2, 0x3D9),
      (0x3F4, 0x3F4, 1, 0x3B8), (0x3F7, 0x3F7, 1, 0x3F8), (0x3F9, 0x3F9, 1, 0x3F2),
      (0x3FA, 0x3FA, 1, 0x3FB), (0x3FD, 0x3FF, 1, 0x37B), (0x400, 0x40F, 1, 0x450),
      (0x410, 0x42F, 1, 0x430), (0x460, 0x480, 2, 0x461), (0x48A, 0x4BE, 2, 0x48B),
      (0x4C0, 0x4C0, 1, 0x4CF), (0x4C1, 0x4CD, 2, 0x4C2), (0x4D0, 0x52E, 2, 0x4D1),
      (0x531, 0x556, 1, 0x561), (0x10A0, 0x10C5, 1, 0x2D00), (0x10C7, 0x10C7, 1, 0x2D27),
      (0x10CD, 0x10CD, 1, 0x2D2D), (0x13A0, 0x13EF, 1, 0xAB70), (0x13F0, 0x13F5, 1, 0x13F8),
      (0x1C90, 0x1CBA, 1, 0x10D0), (0x1CBD, 0x1CBF, 1, 0x10FD), (0x1E00, 0x1E94, 2, 0x1E01),
      (0x1E9E, 0x1E9E, 1, 0xDF), (0x1EA0, 0x1EFE, 2, 0x1EA1), (0x1F08, 0x1F0F, 1, 0x1F00),
      (0x1F18, 0x1F1D, 1, 0x1F10), (0x1F28, 0x1F2F, 1, 0x1F20), (0x1F38, 0x1F3F, 1, 0x1F30),
      (0x1F48, 0x1F4D, 1, 0x1F40), (0x1F59, 0x1F5F, 2, 0x1F51), (0x1F68, 0x1F6F, 1, 0x1F60),
      (0x1F88, 0x1F8F, 1, 0x1F80), (0x1F98, 0x1F9F, 1, 0x1F90), (0x1FA8, 0x1FAF, 1, 0x1FA0),
      (0x1FB8, 0x1FB9, 1, 0x1FB0), (0x1FBA, 0x1FBB, 1, 0x1F70), (0x1FBC, 0x1FBC, 1, 0x1FB3),
      (0x1FC8, 0x1FCB, 1, 0x1F72), (0x1FCC, 0x1FCC, 1, 0x1FC3), (0x1FD8, 0x1FD9, 1, 0x1FD0),
      (0x1FDA, 0x1FDB, 1, 0x1F76), (0x1FE8, 0x1FE9, 1, 0x1FE0), (0x1FEA, 0x1FEB, 1, 0x1F7A),
      (0x1FEC, 0x1FEC, 1, 0x1FE5), (0x1FF8, 0x1FF9, 1, 0x1F78), (0x1FFA, 0x1FFB, 1, 0x1F7C),
      (0x1FFC, 0x1FFC, 1, 0x1FF3), (0x2126, 0x2126, 1, 0x3C9), (0x212A, 0x212A, 1, 0x6B),
      (0x212B, 0x212B, 1, 0xE5), (0x2132, 0x2132, 1, 0x214E), (0x2160, 0x216F, 1, 0x2170),
      (0x2183, 0x2183, 1, 0x2184), (0x24B6, 0x24CF, 1, 0x24D0), (0x2C00, 0x2C2F, 1, 0x2C30),
      (0x2C60, 0x2C60, 1, 0x2C61), (0x2C62, 0x2C62, 1, 0x26B), (0x2C63, 0x2C63, 1, 0x1D7D),
      (0x2C64, 0x2C64, 1, 0x27D), (0x2C67, 0x2C6B, 2, 0x2C68), (0x2C6D, 0x2C6D, 1, 0x251),
      (0x2C6E, 0x2C6E, 1, 0x271), (0x2C6F, 0x2C6F, 1, 0x250), (0x2C70, 0x2C70, 1, 0x252),
      (0x2C72, 0x2C72, 1, 0x2C73), (0x2C75, 0x2C75, 1, 0x2C76), (0x2C7E, 0x2C7F, 1, 0x23F),
      (0x2C80, 0x2CE2, 2, 0x2C81), (0x2CEB, 0x2CED, 2, 0x2CEC), (0x2CF2, 0x2CF2, 1, 0x2CF3),
      (0xA640, 0xA66C, 2, 0xA641), (0xA680, 0xA69A, 2, 0xA681), (0xA722, 0xA72E, 2, 0xA723),
      (0xA732, 0xA76E, 2, 0xA733), (0xA779, 0xA77B, 2, 0xA77A), (0xA77D, 0xA77D, 1, 0x1D79),
      (0xA77E, 0xA786, 2, 0xA77F), (0xA78B, 0xA78B, 1, 0xA78C), (0xA78D, 0xA78D, 1, 0x265),
      (0xA790, 0xA792, 2, 0xA791), (0xA796, 0xA7A8, 2, 0xA797), (0xA7AA, 0xA7AA, 1, 0x266),
      (0xA7AB, 0xA7AB, 1, 0x25C), (0xA7AC, 0xA7AC, 1, 0x261), (0xA7AD, 0xA7AD, 1, 0x26C),
      (0xA7AE, 0xA7AE, 1, 0x26A), (0xA7B0, 0xA7B0, 1, 0x29E), (0xA7B1, 0xA7B1, 1, 0x287),
      (0xA7B2, 0xA7B2, 1, 0x29D), (0xA7B3, 0xA7B3, 1, 0xAB53), (0xA7B4, 0xA7C2, 2, 0xA7B5),
      (0xA7C4, 0xA7C4, 1, 0xA794), (0xA7C5, 0xA7C5, 1, 0x282), (0xA7C6, 0xA7C6, 1, 0x1D8E),
      (0xA7C7, 0xA7C9, 2, 0xA7C8), (0xA7D0, 0xA7D0, 1, 0xA7D1), (0xA7D6, 0xA7D8, 2, 0xA7D7),
      (0xA7F5, 0xA7F5, 1, 0xA7F6), (0xFF21, 0xFF3A, 1, 0xFF41),
      (0x10400, 0x10427, 1, 0x10428), (0x104B0, 0x104D3, 1, 0x104D8),
      (0x10570, 0x1057A, 1, 0x10597), (0x1057C, 0x1058A, 1, 0x105A3),
      (0x1058C, 0x10592, 1, 0x105B3), (0x10594, 0x10595, 1, 0x105BB),
      (0x10C80, 0x10CB2, 1, 0x10CC0), (0x118A0, 0x118BF, 1, 0x118C0),
      (0x16E40, 0x16E5F, 1, 0x16E60), (0x1E900, 0x1E921, 1, 0x1E922)]"

definition case_ignorable_table :: "(nat \<times> nat) list" where
  "case_ignorable_table =
     [
      (0x27, 0x27), (0x2E, 0x2E), (0x3A, 0x3A), (0x5E, 0x5E), (0x60, 0x60), (0xA8, 0xA8),
      (0xAD, 0xAD), (0xAF, 0xAF), (0xB4, 0xB4), (0xB7, 0xB8), (0x2B0, 0x36F),
      (0x374, 0x375), (0x37A, 0x37A), (0x384, 0x385), (0x387, 0x387), (0x483, 0x489),
      (0x559, 0x559), (0x55F, 0x55F), (0x591, 0x5BD), (0x5BF, 0x5BF), (0x5C1, 0x5C2),
      (0x5C4, 0x5C5), (0x5C7, 0x5C7), (0x5F4, 0x5F4), (0x600, 0x605), (0x610, 0x61A),
      (0x61C, 0x61C), (0x640, 0x640), (0x64B, 0x65F), (0x670, 0x670), (0x6D6, 0x6DD),
      (0x6DF, 0x6E8), (0x6EA, 0x6ED), (0x70F, 0x70F), (0x711, 0x711), (0x730, 0x74A),
      (0x7A6, 0x7B0), (0x7EB, 0x7F5), (0x7FA, 0x7FA), (0x7FD, 0x7FD), (0x816, 0x82D),
      (0x859, 0x85B), (0x888, 0x888), (0x890, 0x891), (0x898, 0x89F), (0x8C9, 0x902),
      (0x93A, 0x93A), (0x93C, 0x93C), (0x941, 0x948), (0x94D, 0x94D), (0x951, 0x957),
      (0x962, 0x963), (0x971, 0x971), (0x981, 0x981), (0x9BC, 0x9BC), (0x9C1, 0x9C4),
      (0x9CD, 0x9CD), (0x9E2, 0x9E3), (0x9FE, 0x9FE), (0xA01, 0xA02), (0xA3C, 0xA3C),
      (0xA41, 0xA42), (0xA47, 0xA48), (0xA4B, 0xA4D), (0xA51, 0xA51), (0xA70, 0xA71),
      (0xA75, 0xA75), (0xA81, 0xA82), (0xABC, 0xABC), (0xAC1, 0xAC5), (0xAC7, 0xAC8),
      (0xACD, 0xACD), (0xAE2, 0xAE3), (0xAFA, 0xAFF), (0xB01, 0xB01), (0xB3C, 0xB3C),
      (0xB3F, 0xB3F), (0xB41, 0xB44), (0xB4D, 0xB4D), (0xB55, 0xB56), (0xB62, 0xB63),
      (0xB82, 0xB82), (0xBC0, 0xBC0), (0xBCD, 0xBCD), (0xC00, 0xC00), (0xC04, 0xC04),
      (0xC3C, 0xC3C), (0xC3E, 0xC40), (0xC46, 0xC48), (0xC4A, 0xC4D), (0xC55, 0xC56),
      (0xC62, 0xC63), (0xC81, 0xC81), (0xCBC, 0xCBC), (0xCBF, 0xCBF), (0xCC6, 0xCC6),
      (0xCCC, 0xCCD), (0xCE2, 0xCE3), (0xD00, 0xD01), (0xD3B, 0xD3C), (0xD41, 0xD44),
      (0xD4D, 0xD4D), (0xD62, 0xD63), (0xD81, 0xD81), (0xDCA, 0xDCA), (0xDD2, 0xDD4),
      (0xDD6, 0xDD6), (0xE31, 0xE31), (0xE34, 0xE3A), (0xE46, 0xE4E), (0xEB1, 0xEB1),
      (0xEB4, 0xEBC), (0xEC6, 0xEC6), (0xEC8, 0xECD), (0xF18, 0xF19), (0xF35, 0xF35),
      (0xF37, 0xF37), (0xF39, 0xF39), (0xF71, 0xF7E), (0xF80, 0xF84), (0xF86, 0xF87),
      (0xF8D, 0xF97), (0xF99, 0xFBC), (0xFC6, 0xFC6), (0x102D, 0x1030), (0x1032, 0x1037),
      (0x1039, 0x103A), (0x103D, 0x103E), (0x1058, 0x1059), (0x105E, 0x1060),
      (0x1071, 0x1074), (0x1082, 0x1082), (0x1085, 0x1086), (0x108D, 0x108D),
      (0x109D, 0x109D), (0x10FC, 0x10FC), (0x135D, 0x135F), (0x1712, 0x1714),
      (0x1732, 0x1733), (0x1752, 0x1753), (0x1772, 0x1773), (0x17B4, 0x17B5),
      (0x17B7, 0x17BD), (0x17C6, 0x17C6), (0x17C9, 0x17D3), (0x17D7, 0x17D7),
      (0x17DD, 0x17DD), (0x180B, 0x180F), (0x1843, 0x1843), (0x1885, 0x1886),
      (0x18A9, 0x18A9), (0x1920, 0x1922), (0x1927, 0x1928), (0x1932, 0x1932),
      (0x1939, 0x193B), (0x1A17, 0x1A18), (0x1A1B, 0x1A1B), (0x1A56, 0x1A56),
      (0x1A58, 0x1A5E), (0x1A60, 0x1A60), (0x1A62, 0x1A62), (0x1A65, 0x1A6C),
      (0x1A73, 0x1A7C), (0x1A7F, 0x1A7F), (0x1AA7, 0x1AA7), (0x1AB0, 0x1ACE),
      (0x1B00, 0x1B03), (0x1B34, 0x1B34), (0x1B36, 0x1B3A), (0x1B3C, 0x1B3C),
      (0x1B42, 0x1B42), (0x1B6B, 0x1B73), (0x1B80, 0x1B81), (0x1BA2, 0x1BA5),
      (0x1BA8, 0x1BA9), (0x1BAB, 0x1BAD), (0x1BE6, 0x1BE6), (0x1BE8, 0x1BE9),
      (0x1BED, 0x1BED), (0x1BEF, 0x1BF1), (0x1C2C, 0x1C33), (0x1C36, 0x1C37),
      (0x1C78, 0x1C7D), (0x1CD0, 0x1CD2), (0x1CD4, 0x1CE0), (0x1CE2, 0x1CE8),
      (0x1CED, 0x1CED), (0x1CF4, 0x1CF4), (0x1CF8, 0x1CF9), (0x1D2C, 0x1D6A),
      (0x1D78, 0x1D78), (0x1D9B, 0x1DFF), (0x1FBD, 0x1FBD), (0x1FBF, 0x1FC1),
      (0x1FCD, 0x1FCF), (0x1FDD, 0x1FDF), (0x1FED, 0x1FEF), (0x1FFD, 0x1FFE),
      (0x200B, 0x200F), (0x2018, 0x2019), (0x2024, 0x2024), (0x2027, 0x2027),
      (0x202A, 0x202E), (0x2060, 0x2064), (0x2066, 0x206F), (0x2071, 0x2071),
      (0x207F, 0x207F), (0x2090, 0x209C), (0x20D0, 0x20F0), (0x2C7C, 0x2C7D),
      (0x2CEF, 0x2CF1), (0x2D6F, 0x2D6F), (0x2D7F, 0x2D7F), (0x2DE0, 0x2DFF),
      (0x2E2F, 0x2E2F), (0x3005, 0x3005), (0x302A, 0x302D), (0x3031, 0x3035),
      (0x303B, 0x303B), (0x3099, 0x309E), (0x30FC, 0x30FE), (0xA015, 0xA015),
      (0xA4F8, 0xA4FD), (0xA60C, 0xA60C), (0xA66F, 0xA672), (0xA674, 0xA67D),
      (0xA67F, 0xA67F), (0xA69C, 0xA69F), (0xA6F0, 0xA6F1), (0xA700, 0xA721),
      (0xA770, 0xA770), (0xA788, 0xA78A), (0xA7F2, 0xA7F4), (0xA7F8, 0xA7F9),
      (0xA802, 0xA802), (0xA806, 0xA806), (0xA80B, 0xA80B), (0xA825, 0xA826),
      (0xA82C, 0xA82C), (0xA8C4, 0xA8C5), (0xA8E0, 0xA8F1), (0xA8FF, 0xA8FF),
      (0xA926, 0xA92D), (0xA947, 0xA951), (0xA980, 0xA982), (0xA9B3, 0xA9B3),
      (0xA9B6, 0xA9B9), (0xA9BC, 0xA9BD), (0xA9CF, 0xA9CF), (0xA9E5, 0xA9E6),
      (0xAA29, 0xAA2E), (0xAA31, 0xAA32), (0xAA35, 0xAA36), (0xAA43, 0xAA43),
      (0xAA4C, 0xAA4C), (0xAA70, 0xAA70), (0xAA7C, 0xAA7C), (0xAAB0, 0xAAB0),
      (0xAAB2, 0xAAB4), (0xAAB7, 0xAAB8), (0xAABE, 0xAABF), (0xAAC1, 0xAAC1),
      (0xAADD, 0xAADD), (0xAAEC, 0xAAED), (0xAAF3, 0xAAF4), (0xAAF6, 0xAAF6),
      (0xAB5B, 0xAB5F), (0xAB69, 0xAB6B), (0xABE5, 0xABE5), (0xABE8, 0xABE8),
      (0xABED, 0xABED), (0xFB1E, 0xFB1E), (0xFBB2, 0xFBC2), (0xFE00, 0xFE0F),
      (0xFE13, 0xFE13), (0xFE20, 0xFE2F), (0xFE52, 0xFE52), (0xFE55, 0xFE55),
      (0xFEFF, 0xFEFF), (0xFF07, 0xFF07), (0xFF0E, 0xFF0E), (0xFF1A, 0xFF1A),
      (0xFF3E, 0xFF3E), (0xFF40, 0xFF40), (0xFF70, 0xFF70), (0xFF9E, 0xFF9F),
      (0xFFE3, 0xFFE3), (0xFFF9, 0xFFFB), (0x101FD, 0x101FD), (0x102E0, 0x102E0),
      (0x10376, 0x1037A), (0x10780, 0x10785), (0x10787, 0x107B0), (0x107B2, 0x107BA),
      (0x10A01, 0x10A03), (0x10A05, 0x10A06), (0x10A0C, 0x10A0F), (0x10A38, 0x10A3A),
      (0x10A3F, 0x10A3F), (0x10AE5, 0x10AE6), (0x10D24, 0x10D27), (0x10EAB, 0x10EAC),
      (0x10F46, 0x10F50), (0x10F82, 0x10F85), (0x11001, 0x11001), (0x11038, 0x11046),
      (0x11070, 0x11070), (0x11073, 0x11074), (0x1107F, 0x11081), (0x110B3, 0x110B6),
      (0x110B9, 0x110BA), (0x110BD, 0x110BD), (0x110C2, 0x110C2), (0x110CD, 0x110CD),
      (0x11100, 0x11102), (0x11127, 0x1112B), (0x1112D, 0x11134), (0x11173, 0x11173),
      (0x11180, 0x11181), (0x111B6, 0x111BE), (0x111C9, 0x111CC), (0x111CF, 0x111CF),
      (0x1122F, 0x11231), (0x11234, 0x11234), (0x11236, 0x11237), (0x1123E, 0x1123E),
      (0x112DF, 0x112DF), (0x112E3, 0x112EA), (0x11300, 0x11301), (0x1133B, 0x1133C),
      (0x11340, 0x11340), (0x11366, 0x1136C), (0x11370, 0x11374), (0x11438, 0x1143F),
      (0x11442, 0x11444), (0x11446, 0x11446), (0x1145E, 0x1145E), (0x114B3, 0x114B8),
      (0x114BA, 0x114BA), (0x114BF, 0x114C0), (0x114C2, 0x114C3), (0x115B2, 0x115B5),
      (0x115BC, 0x115BD), (0x115BF, 0x115C0), (0x115DC, 0x115DD), (0x11633, 0x1163A),
      (0x1163D, 0x1163D), (0x1163F, 0x11640), (0x116AB, 0x116AB), (0x116AD, 0x116AD),
      (0x116B0, 0x116B5), (0x116B7, 0x116B7), (0x1171D, 0x1171F), (0x11722, 0x11725),
      (0x11727, 0x1172B), (0x1182F, 0x11837), (0x11839, 0x1183A), (0x1193B, 0x1193C),
      (0x1193E, 0x1193E), (0x11943, 0x11943), (0x119D4, 0x119D7), (0x119DA, 0x119DB),
      (0x119E0, 0x119E0), (0x11A01, 0x11A0A), (0x11A33, 0x11A38), (0x11A3B, 0x11A3E),
      (0x11A47, 0x11A47), (0x11A51, 0x11A56), (0x11A59, 0x11A5B), (0x11A8A, 0x11A96),
      (0x11A98, 0x11A99), (0x11C30, 0x11C36), (0x11C38, 0x11C3D), (0x11C3F, 0x11C3F),
      (0x11C92, 0x11CA7), (0x11CAA, 0x11CB0), (0x11CB2, 0x11CB3), (0x11CB5, 0x11CB6),
      (0x11D31, 0x11D36), (0x11D3A, 0x11D3A), (0x11D3C, 0x11D3D), (0x11D3F, 0x11D45),
      (0x11D47, 0x11D47), (0x11D90, 0x11D91), (0x11D95, 0x11D95), (0x11D97, 0x11D97),
      (0x11EF3, 0x11EF4), (0x13430, 0x13438), (0x16AF0, 0x16AF4), (0x16B30, 0x16B36),
      (0x16B40, 0x16B43), (0x16F4F, 0x16F4F), (0x16F8F, 0x16F9F), (0x16FE0, 0x16FE1),
      (0x16FE3, 0x16FE4), (0x1AFF0, 0x1AFF3), (0x1AFF5, 0x1AFFB), (0x1AFFD, 0x1AFFE),
      (0x1BC9D, 0x1BC9E), (0x1BCA0, 0x1BCA3), (0x1CF00, 0x1CF2D), (0x1CF30, 0x1CF46),
      (0x1D167, 0x1D169), (0x1D173, 0x1D182), (0x1D185, 0x1D18B), (0x1D1AA, 0x1D1AD),
      (0x1D242, 0x1D244), (0x1DA00, 0x1DA36), (0x1DA3B, 0x1DA6C), (0x1DA75, 0x1DA75),
      (0x1DA84, 0x1DA84), (0x1DA9B, 0x1DA9F), (0x1DAA1, 0x1DAAF), (0x1E000, 0x1E006),
      (0x1E008, 0x1E018), (0x1E01B, 0x1E021), (0x1E023, 0x1E024), (0x1E026, 0x1E02A),
      (0x1E130, 0x1E13D), (0x1E2AE, 0x1E2AE), (0x1E2EC, 0x1E2EF), (0x1E8D0, 0x1E8D6),
      (0x1E944, 0x1E94B), (0x1F3FB, 0x1F3FF), (0xE0001, 0xE0001), (0xE0020, 0xE007F),
      (0xE0100, 0xE01EF)]"

definition cased_table :: "(nat \<times> nat) list" where
  "cased_table =
     [
      (0x41, 0x5A), (0x61, 0x7A), (0xAA, 0xAA), (0xB5, 0xB5), (0xBA, 0xBA), (0xC0, 0xD6),
      (0xD8, 0xF6), (0xF8, 0x1BA), (0x1BC, 0x1BF), (0x1C4, 0x293), (0x295, 0x2B8),
      (0x2C0, 0x2C1), (0x2E0, 0x2E4), (0x345, 0x345), (0x370, 0x373), (0x376, 0x377),
      (0x37A, 0x37D), (0x37F, 0x37F), (0x386, 0x386), (0x388, 0x38A), (0x38C, 0x38C),
      (0x38E, 0x3A1), (0x3A3, 0x3F5), (0x3F7, 0x481), (0x48A, 0x52F), (0x531, 0x556),
      (0x560, 0x588), (0x10A0, 0x10C5), (0x10C7, 0x10C7), (0x10CD, 0x10CD),
      (0x10D0, 0x10FA), (0x10FD, 0x10FF), (0x13A0, 0x13F5), (0x13F8, 0x13FD),
      (0x1C80, 0x1C88), (0x1C90, 0x1CBA), (0x1CBD, 0x1CBF), (0x1D00, 0x1DBF),
      (0x1E00, 0x1F15), (0x1F18, 0x1F1D), (0x1F20, 0x1F45), (0x1F48, 0x1F4D),
      (0x1F50, 0x1F57), (0x1F59, 0x1F59), (0x1F5B, 0x1F5B), (0x1F5D, 0x1F5D),
      (0x1F5F, 0x1F7D), (0x1F80, 0x1FB4), (0x1FB6, 0x1FBC), (0x1FBE, 0x1FBE),
      (0x1FC2, 0x1FC4), (0x1FC6, 0x1FCC), (0x1FD0, 0x1FD3), (0x1FD6, 0x1FDB),
      (0x1FE0, 0x1FEC), (0x1FF2, 0x1FF4), (0x1FF6, 0x1FFC), (0x2071, 0x2071),
      (0x207F, 0x207F), (0x2090, 0x209C), (0x2102, 0x2102), (0x2107, 0x2107),
      (0x210A, 0x2113), (0x2115, 0x2115), (0x2119, 0x211D), (0x2124, 0x2124),
      (0x2126, 0x2126), (0x2128, 0x2128), (0x212A, 0x212D), (0x212F, 0x2134),
      (0x2139, 0x2139), (0x213C, 0x213F), (0x2145, 0x2149), (0x214E, 0x214E),
      (0x2160, 0x217F), (0x2183, 0x2184), (0x24B6, 0x24E9), (0x2C00, 0x2CE4),
      (0x2CEB, 0x2CEE), (0x2CF2, 0x2CF3), (0x2D00, 0x2D25), (0x2D27, 0x2D27),
      (0x2D2D, 0x2D2D), (0xA640, 0xA66D), (0xA680, 0xA69D), (0xA722, 0xA787),
      (0xA78B, 0xA78E), (0xA790, 0xA7CA), (0xA7D0, 0xA7D1), (0xA7D3, 0xA7D3),
      (0xA7D5, 0xA7D9), (0xA7F5, 0xA7F6), (0xA7F8, 0xA7FA), (0xAB30, 0xAB5A),
      (0xAB5C, 0xAB68), (0xAB70, 0xABBF), (0xFB00, 0xFB06), (0xFB13, 0xFB17),
      (0xFF21, 0xFF3A), (0xFF41, 0xFF5A), (0x10400, 0x1044F), (0x104B0, 0x104D3),
      (0x104D8, 0x104FB), (0x10570, 0x1057A), (0x1057C, 0x1058A), (0x1058C, 0x10592),
      (0x10594, 0x10595), (0x10597, 0x105A1), (0x105A3, 0x105B1), (0x105B3, 0x105B9),
      (0x105BB, 0x105BC), (0x10780, 0x10780), (0x10783, 0x10785), (0x10787, 0x107B0),
      (0x107B2, 0x107BA), (0x10C80, 0x10CB2), (0x10CC0, 0x10CF2), (0x118A0, 0x118DF),
      (0x16E40, 0x16E7F), (0x1D400, 0x1D454), (0x1D456, 0x1D49C), (0x1D49E, 0x1D49F),
      (0x1D4A2, 0x1D4A2), (0x1D4A5, 0x1D4A6), (0x1D4A9, 0x1D4AC), (0x1D4AE, 0x1D4B9),
      (0x1D4BB, 0x1D4BB), (0x1D4BD, 0x1D4C3), (0x1D4C5, 0x1D505), (0x1D507, 0x1D50A),
      (0x1D50D, 0x1D514), (0x1D516, 0x1D51C), (0x1D51E, 0x1D539), (0x1D53B, 0x1D53E),
      (0x1D540, 0x1D544), (0x1D546, 0x1D546), (0x1D54A, 0x1D550), (0x1D552, 0x1D6A5),
      (0x1D6A8, 0x1D6C0), (0x1D6C2, 0x1D6DA), (0x1D6DC, 0x1D6FA), (0x1D6FC, 0x1D714),
      (0x1D716, 0x1D734), (0x1D736, 0x1D74E), (0x1D750, 0x1D76E), (0x1D770, 0x1D788),
      (0x1D78A, 0x1D7A8), (0x1D7AA, 0x1D7C2), (0x1D7C4, 0x1D7CB), (0x1DF00, 0x1DF09),
      (0x1DF0B, 0x1DF1E), (0x1E900, 0x1E943), (0x1F130, 0x1F149), (0x1F150, 0x1F169),
      (0x1F170, 0x1F189)]"

fun in_ranges :: "nat \<Rightarrow> (nat \<times> nat) list \<Rightarrow> bool" where
  "in_ranges c [] = False"
| "in_ranges c ((lo, hi) # rs) = ((lo \<le> c \<and> c \<le> hi) \<or> in_ranges c rs)"

fun mapped :: "nat \<Rightarrow> (nat \<times> nat \<times> nat \<times> nat) list \<Rightarrow> nat" where
  "mapped c [] = c"
| "mapped c ((lo, hi, step, target) # rs) =
     (if lo \<le> c \<and> c \<le> hi \<and> (c - lo) mod step = 0 then target + (c - lo)
      else mapped c rs)"

definition case_ignorable :: "nat \<Rightarrow> bool" where
  "case_ignorable c = in_ranges c case_ignorable_table"

definition cased :: "nat \<Rightarrow> bool" where
  "cased c = in_ranges c cased_table"

text \<open>
  The lower-case mapping of one code point outside any context: the letters A to Z, the
  one unconditional entry of SpecialCasing (U+0130 becomes i followed by the combining
  dot above), and the simple mapping of the table; a code point without a mapping is
  kept.
\<close>

definition lowercase_mapping :: "nat \<Rightarrow> nat list" where
  "lowercase_mapping c =
     (if c < 0x80 then [if 0x41 \<le> c \<and> c \<le> 0x5A then c + 0x20 else c]
      else if c = 0x130 then [0x69, 0x307]
      else [mapped c lower_table])"

text \<open>
  The next code point that is not case-ignorable exists and is cased. On the code points
  before a position, nearest first, and on those after it, this is the test of the
  condition Final_Sigma.
\<close>

definition cased_next :: "nat list \<Rightarrow> bool" where
  "cased_next cs = (case dropWhile case_ignorable cs of [] \<Rightarrow> False | c # _ \<Rightarrow> cased c)"

text \<open>
  The lower-casing of the code points \<open>rest\<close>, where \<open>prev\<close> holds the code
  points already passed, nearest first. The capital sigma U+03A3 becomes the final sigma
  U+03C2 when a cased letter precedes it and none follows it, and the sigma U+03C3
  otherwise.
\<close>

fun lower_from :: "nat list \<Rightarrow> nat list \<Rightarrow> nat list" where
  "lower_from prev [] = []"
| "lower_from prev (c # rest) =
     (if c = 0x3A3
      then [if cased_next prev \<and> \<not> cased_next rest then 0x3C2 else 0x3C3]
      else lowercase_mapping c) @ lower_from (c # prev) rest"

text \<open>
  \<open>String.prototype.toLowerCase\<close>: the code points of the string, lower-cased by the
  default case conversion of Unicode, as code units again.
\<close>

definition toLowerCase :: "jsstring \<Rightarrow> jsstring" where
  "toLowerCase s = concat (map code_units (lower_from [] (code_points s)))"

text \<open>\<open>String.prototype.includes\<close>: \<open>t\<close> occurs in \<open>s\<close> as a contiguous block.\<close>

fun starts_with :: "jsstring \<Rightarrow> jsstring \<Rightarrow> bool" where
  "starts_with s [] = True"
| "starts_with [] (y # t) = False"
| "starts_with (x # s) (y # t) = (x = y \<and> starts_with s t)"

fun js_includes :: "jsstring \<Rightarrow> jsstring \<Rightarrow> bool" where
  "js_includes [] t = (t = [])"
| "js_includes (x # s) t = (starts_with (x # s) t \<or> js_includes s t)"

text \<open>
  JavaScript numbers are IEEE-754 doubles. Every finite double is a rational, and
  comparison, \<open>Math.min\<close> and the sign of a difference are exact on doubles, so a number
  is a \<open>rat\<close>. A product is rounded; where the source multiplies numbers that are not
  fixed, the multiplication is a parameter \<open>mul\<close> of the model, and \<open>fmul\<close> below is
  the multiplication of JavaScript.
\<close>

type_synonym number = rat

section \<open>Double-precision products\<close>

text \<open>
  The product of two numbers in JavaScript is the exact product of the two doubles,
  rounded to the nearest double, ties to the even significand. \<open>dbl\<close> is that rounding,
  on rationals: a double is \<open>m * 2 ^ e\<close> with \<open>m\<close> below \<open>2 ^ 53\<close> and \<open>e\<close> not below
  \<open>- 1074\<close>. A number written in decimal in the source, such as 1.15, is the double
  nearest to it, so \<open>fmul\<close> rounds its arguments too. The exponent has no upper bound
  here, where JavaScript gives \<open>Infinity\<close> from \<open>2 ^ 1024\<close> on: the recommender
  multiplies a budget by a fraction of at most 0.35 and by 1.15, which stays below the
  budget.
\<close>

text \<open>The number of binary digits of a natural number.\<close>

fun bits :: "nat \<Rightarrow> nat" where
  "bits n = (if n = 0 then 0 else Suc (bits (n div 2)))"

declare bits.simps [simp del]

definition pow2 :: "int \<Rightarrow> rat" where
  "pow2 e = (if 0 \<le> e then 2 ^ nat e else 1 / 2 ^ nat (- e))"

text \<open>The exponent \<open>k\<close> with \<open>2 ^ k \<le> a < 2 ^ (k + 1)\<close>, for a positive \<open>a\<close>.\<close>

definition floor_log2 :: "rat \<Rightarrow> int" where
  "floor_log2 a =
     (if 1 \<le> a then int (bits (nat \<lfloor>a\<rfloor>)) - 1
      else - int (bits (nat (\<lceil>1 / a\<rceil> - 1))))"

definition round_half_even :: "rat \<Rightarrow> int" where
  "round_half_even q =
     (let f = \<lfloor>q\<rfloor>; r = q - of_int f
      in if r < 1 / 2 then f else if 1 / 2 < r then f + 1 else if even f then f else f + 1)"

definition dbl :: "rat \<Rightarrow> rat" where
  "dbl x =
     (if x = 0 then 0
      else let e = max (floor_log2 \<bar>x\<bar> - 52) (- 1074)
           in sgn x * (of_int (round_half_even (\<bar>x\<bar> / pow2 e)) * pow2 e))"

definition fmul :: "number \<Rightarrow> number \<Rightarrow> number" where
  "fmul a b = dbl (dbl a * dbl b)"

section \<open>Data model\<close>

datatype category = Cpu | Motherboard | Ram | Gpu | Storage | Psu | PcCase | Monitor


text \<open>
  A vendor offer. A field that the JSON document may leave out is an option, \<open>None\<close>
  being \<open>undefined\<close>.
\<close>

record vendor =
  vname :: jsstring
  url :: jsstring
  price :: "number option"
  inStock :: "bool option"
  stock :: "bool option"

record component =
  cid :: jsstring
  category :: category
  name :: jsstring
  brand :: jsstring
  socket :: "jsstring option"
  ramType :: "jsstring option"
  ram_type :: "jsstring option"
  wattage :: "jsstring option"
  vendors :: "vendor list option"

text \<open>
  \<open>ram_type\<close> is the field \<open>type\<close> of the source. \<open>wattage\<close> is the text that
  \<open>parseInt\<close> reads: a numeric wattage is its decimal rendering.
\<close>

section \<open>Pricing resolver\<close>

text \<open>\<open>v.inStock && v.price > 0\<close>; \<open>undefined > 0\<close> is false.\<close>

definition offer_ok :: "vendor \<Rightarrow> bool" where
  "offer_ok v = (inStock v = Some True \<and> (case price v of None \<Rightarrow> False | Some p \<Rightarrow> 0 < p))"

text \<open>\<open>Math.min(...xs)\<close> on a non-empty argument list; with no argument it is \<open>Infinity\<close>,
  which the callers exclude by testing \<open>length\<close> first.\<close>

fun math_min :: "number list \<Rightarrow> number option" where
  "math_min [] = None"
| "math_min (x # xs) = Some (fold min xs x)"

text \<open>
  \<open>.filter(v => v.inStock && v.price > 0).map(v => v.price)\<close>: every offer that passes
  the filter has a price, so \<open>map_filter\<close> drops none of them.
\<close>

definition getLowestPrice :: "component \<Rightarrow> number option" where
  "getLowestPrice c =
     (case vendors c of
        None \<Rightarrow> None
      | Some vs \<Rightarrow>
          if length vs = 0 then None
          else let prices = List.map_filter price (filter offer_ok vs)
               in if length prices \<noteq> 0 then math_min prices else None)"

text \<open>\<open>v.price < best.price\<close>; a comparison with \<open>undefined\<close> is false.\<close>

definition price_less :: "vendor \<Rightarrow> vendor \<Rightarrow> bool" where
  "price_less v best =
     (case (price v, price best) of (Some a, Some b) \<Rightarrow> a < b | _ \<Rightarrow> False)"

text \<open>\<open>reduce\<close> without an initial value starts from the first element.\<close>

definition getBestVendor :: "component \<Rightarrow> vendor option" where
  "getBestVendor c =
     (case vendors c of
        None \<Rightarrow> None
      | Some vs \<Rightarrow>
          if length vs = 0 then None
          else (case filter offer_ok vs of
                  [] \<Rightarrow> None
                | v0 # rest \<Rightarrow>
                    Some (foldl (\<lambda>best v. if price_less v best then v else best) v0 rest)))"

text \<open>The offers of a component, none when the field is missing.\<close>

definition offers :: "component \<Rightarrow> vendor list" where
  "offers c = (case vendors c of None \<Rightarrow> [] | Some vs \<Rightarrow> vs)"

text \<open>The prices of the eligible offers: in stock and priced above zero.\<close>

definition eligible_prices :: "component \<Rightarrow> number set" where
  "eligible_prices c =
     {p. \<exists>v \<in> set (offers c). inStock v = Some True \<and> price v = Some p \<and> 0 < p}"

section \<open>Compatibility checker\<close>

record build =
  cpu :: "component option"
  motherboard :: "component option"
  ram :: "component option"
  gpu :: "component option"
  storage :: "component option"
  psu :: "component option"
  pcCase :: "component option"
  monitor :: "component option"

datatype finding_type = TSocket | TRam | TPower

datatype severity = Error | Warning

record finding =
  ftype :: finding_type
  severity :: severity
  message :: jsstring

record compatibility =
  isCompatible :: bool
  hasWarnings :: bool
  warnings :: "finding list"

text \<open>White space as \<open>parseInt\<close> trims it and as \<open>\s\<close> matches it.\<close>

definition is_whitespace :: "16 word \<Rightarrow> bool" where
  "is_whitespace c =
     (c \<in> set [0x09, 0x0A, 0x0B, 0x0C, 0x0D, 0x20, 0xA0, 0x1680, 0x2028, 0x2029,
                0x202F, 0x205F, 0x3000, 0xFEFF]
      \<or> (0x2000 \<le> c \<and> c \<le> 0x200A))"

text \<open>The value of a digit in the given radix, \<open>None\<close> for any other code unit.\<close>

definition digit_val :: "nat \<Rightarrow> 16 word \<Rightarrow> nat option" where
  "digit_val radix c =
     (let d = (if 0x30 \<le> c \<and> c \<le> 0x39 then Some (unat c - 48)
               else if 0x61 \<le> c \<and> c \<le> 0x7A then Some (unat c - 87)
               else if 0x41 \<le> c \<and> c \<le> 0x5A then Some (unat c - 55)
               else None)
      in case d of None \<Rightarrow> None | Some n \<Rightarrow> if n < radix then Some n else None)"

text \<open>
  \<open>parseInt(x)\<close> with no radix: the argument is converted to a string (\<open>undefined\<close>
  becomes the text "undefined"), leading white space is dropped, then a sign, then the
  prefix 0x or 0X, which selects radix 16; the longest run of digits is the value and
  anything after it is ignored. With no digit the result is \<open>NaN\<close>, here \<open>None\<close>.
  The source only compares the result with numbers below 600 and prints it when it is
  below them, so the rounding of an integer beyond 2^53 is left out.
\<close>

definition parseInt :: "jsstring option \<Rightarrow> int option" where
  "parseInt x =
     (let inputString = (case x of None \<Rightarrow> js ''undefined'' | Some s \<Rightarrow> s);
          S = dropWhile is_whitespace inputString;
          sgn = (case S of [] \<Rightarrow> 1 | c # r \<Rightarrow> if c = 0x2D then - 1 else (1::int));
          S1 = (case S of [] \<Rightarrow> [] | c # r \<Rightarrow> if c = 0x2D \<or> c = 0x2B then r else S);
          hex = (starts_with S1 (js ''0x'') \<or> starts_with S1 (js ''0X''));
          R = (if hex then 16 else 10);
          S2 = (if hex then drop 2 S1 else S1);
          Z = takeWhile (\<lambda>c. digit_val R c \<noteq> None) S2
      in if Z = [] then None
         else Some (sgn * int (foldl (\<lambda>acc d. acc * R + d) 0 (List.map_filter (digit_val R) Z))))"

text \<open>The decimal text of an integer, as a template literal prints it.\<close>

definition dec_digit :: "nat \<Rightarrow> 16 word" where
  "dec_digit d = of_nat (48 + d)"

fun digits_of :: "nat \<Rightarrow> jsstring" where
  "digits_of n =
     (if n < 10 then [dec_digit n] else digits_of (n div 10) @ [dec_digit (n mod 10)])"

declare digits_of.simps [simp del]

definition number_text :: "int \<Rightarrow> jsstring" where
  "number_text i = (if i < 0 then 0x2D # digits_of (nat (- i)) else digits_of (nat i))"

text \<open>A string or \<open>undefined\<close> inside a template literal.\<close>

definition template_text :: "jsstring option \<Rightarrow> jsstring" where
  "template_text x = (case x of None \<Rightarrow> js ''undefined'' | Some s \<Rightarrow> s)"

text \<open>\<open>x?.toLowerCase() || ''\<close>\<close>

definition lower_or_empty :: "jsstring option \<Rightarrow> jsstring" where
  "lower_or_empty x = (case x of None \<Rightarrow> [] | Some s \<Rightarrow> toLowerCase s)"


definition is_ascii :: "jsstring \<Rightarrow> bool" where
  "is_ascii s = list_all (\<lambda>u. u < 0x80) s"



text \<open>\<open>s.replace(pat, rep)\<close> with a string pattern replaces the first occurrence.\<close>

fun js_replace :: "jsstring \<Rightarrow> jsstring \<Rightarrow> jsstring \<Rightarrow> jsstring" where
  "js_replace pat rep [] = (if pat = [] then rep else [])"
| "js_replace pat rep (x # s) =
     (if starts_with (x # s) pat then rep @ drop (length pat) (x # s)
      else x # js_replace pat rep s)"

definition socket_check :: "build \<Rightarrow> finding list" where
  "socket_check b =
     (case (cpu b, motherboard b) of
        (Some c, Some m) \<Rightarrow>
          (let cpuSocket = lower_or_empty (socket c);
               mbSocket = lower_or_empty (socket m)
           in if cpuSocket \<noteq> [] \<and> mbSocket \<noteq> [] \<and> cpuSocket \<noteq> mbSocket
              then [\<lparr>ftype = TSocket, severity = Error,
                     message = js ''CPU socket ('' @ template_text (socket c)
                       @ js '') doesn'' @ [0x27] @ js ''t match motherboard (''
                       @ template_text (socket m) @ js '')''\<rparr>]
              else [])
      | _ \<Rightarrow> [])"

definition ram_check :: "build \<Rightarrow> finding list" where
  "ram_check b =
     (case (ram b, motherboard b) of
        (Some r, Some m) \<Rightarrow>
          (let mbRam = lower_or_empty (ramType m);
               ramType' = lower_or_empty (ram_type r)
           in if ramType' \<noteq> [] \<and> mbRam \<noteq> []
                 \<and> \<not> js_includes mbRam (js_replace (js ''ddr'') (js ''ddr'') ramType')
              then [\<lparr>ftype = TRam, severity = Warning,
                     message = js ''RAM type ('' @ template_text (ram_type r)
                       @ js '') may not be compatible with motherboard''\<rparr>]
              else [])
      | _ \<Rightarrow> [])"

text \<open>\<open>parseInt(build.psu.wattage) || 0\<close>\<close>

definition psuWattage :: "component \<Rightarrow> int" where
  "psuWattage p = (case parseInt (wattage p) of None \<Rightarrow> 0 | Some n \<Rightarrow> n)"

text \<open>
  A text is non-numeric, for \<open>parseInt\<close>, when after its leading white space and one
  sign it does not start with a decimal digit. A number followed by a unit, as in
  "650W", is numeric in this sense.
\<close>

definition non_numeric :: "jsstring \<Rightarrow> bool" where
  "non_numeric t =
     (let S = dropWhile is_whitespace t;
          S1 = (case S of [] \<Rightarrow> [] | c # r \<Rightarrow> if c = 0x2D \<or> c = 0x2B then r else S)
      in case S1 of [] \<Rightarrow> True | d # _ \<Rightarrow> digit_val 10 d = None)"

definition estimatedPower :: "build \<Rightarrow> int" where
  "estimatedPower b =
     (let e0 = 0;
          e1 = (if cpu b \<noteq> None then e0 + 125 else e0);
          e2 = (if gpu b \<noteq> None then e1 + 250 else e1)
      in e2 + 100)"

text \<open>
  The estimate is one of 100, 225, 350 and 475. The doubles \<open>estimatedPower * 1.2\<close> and
  \<open>estimatedPower * 1.3\<close> are then 120, 270, 420, 570 and 130, 292.5, 455, 617.5, the
  exact products, so these two products are written exactly.
\<close>

definition power_check :: "build \<Rightarrow> finding list" where
  "power_check b =
     (case psu b of
        None \<Rightarrow> []
      | Some p \<Rightarrow>
          (let w = psuWattage p;
               e = estimatedPower b
           in if 0 < w \<and> (of_int w :: number) < of_int e * (12 / 10)
              then [\<lparr>ftype = TPower, severity = Warning,
                     message = js ''PSU ('' @ number_text w
                       @ js ''W) may be insufficient. Recommended: ''
                       @ number_text (ceiling ((of_int e :: number) * (13 / 10)))
                       @ js ''W+''\<rparr>]
              else []))"

definition checkCompatibility :: "build \<Rightarrow> compatibility" where
  "checkCompatibility b =
     (let ws = socket_check b @ ram_check b @ power_check b
      in \<lparr>isCompatible = \<not> list_ex (\<lambda>w. severity w = Error) ws,
          hasWarnings = (0 < length ws),
          warnings = ws\<rparr>)"

section \<open>Catalog\<close>

text \<open>
  \<open>getComponents\<close> reads the catalog over the network. What the two requests deliver is
  the state of the world the function runs in: for each URL either the request itself
  fails (\<open>None\<close>) or a response arrives, whose body parses to a component list or fails
  to parse (\<open>None\<close>).
\<close>

record response =
  ok :: bool
  json_content_type :: bool
  body :: "component list option"

record world =
  api_components :: "response option"
  fallback_components :: "response option"

datatype fetch_error = NetworkError | FailedToLoad | BodyError

text \<open>
  The \<open>catch\<close> block: the static document. A request that fails and a body that does not
  parse are thrown on to the caller.
\<close>

definition fallback :: "world \<Rightarrow> fetch_error + component list" where
  "fallback w =
     (case fallback_components w of
        None \<Rightarrow> Inl NetworkError
      | Some r \<Rightarrow>
          if \<not> ok r then Inl FailedToLoad
          else (case body r of None \<Rightarrow> Inl BodyError | Some l \<Rightarrow> Inr l))"

text \<open>
  The \<open>try\<close> block returns \<open>res.json()\<close> without awaiting it, so a body that does not
  parse is not caught and does not reach the static document.
\<close>

definition getComponents :: "world \<Rightarrow> fetch_error + component list" where
  "getComponents w =
     (case api_components w of
        None \<Rightarrow> fallback w
      | Some res \<Rightarrow>
          if \<not> ok res \<or> \<not> json_content_type res then fallback w
          else (case body res of None \<Rightarrow> Inl BodyError | Some l \<Rightarrow> Inr l))"

text \<open>The body of the grouping loop: create the list of a new category, then push.\<close>

definition group_step ::
  "(category \<rightharpoonup> component list) \<Rightarrow> component \<Rightarrow> (category \<rightharpoonup> component list)" where
  "group_step grouped c =
     (let g = (if grouped (category c) = None then grouped(category c \<mapsto> []) else grouped)
      in g(category c \<mapsto> (case g (category c) of None \<Rightarrow> [] | Some xs \<Rightarrow> xs) @ [c]))"

definition getComponentsStructured ::
  "world \<Rightarrow> fetch_error + (category \<rightharpoonup> component list)" where
  "getComponentsStructured w =
     (case getComponents w of
        Inl e \<Rightarrow> Inl e
      | Inr l \<Rightarrow> Inr (foldl group_step Map.empty l))"

section \<open>Budget allocator\<close>

definition allocations_gaming :: "(category \<times> number) list" where
  "allocations_gaming =
     [(Cpu, 2 / 10), (Gpu, 35 / 100), (Motherboard, 12 / 100), (Ram, 1 / 10),
      (Storage, 8 / 100), (Psu, 8 / 100), (PcCase, 7 / 100)]"

definition allocations_productivity :: "(category \<times> number) list" where
  "allocations_productivity =
     [(Cpu, 3 / 10), (Gpu, 2 / 10), (Motherboard, 12 / 100), (Ram, 15 / 100),
      (Storage, 1 / 10), (Psu, 7 / 100), (PcCase, 6 / 100)]"

definition allocations_general :: "(category \<times> number) list" where
  "allocations_general =
     [(Cpu, 25 / 100), (Gpu, 25 / 100), (Motherboard, 12 / 100), (Ram, 12 / 100),
      (Storage, 1 / 10), (Psu, 8 / 100), (PcCase, 8 / 100)]"

text \<open>
  The names every object literal inherits from \<open>Object.prototype\<close>. Looked up in
  \<open>allocations\<close> they give a function or an object, which is truthy and has no
  enumerable entry.
\<close>

definition inherited_names :: "jsstring list" where
  "inherited_names =
     map js [''constructor'', ''hasOwnProperty'', ''isPrototypeOf'', ''propertyIsEnumerable'',
             ''toLocaleString'', ''toString'', ''valueOf'', ''__proto__'',
             ''__defineGetter__'', ''__defineSetter__'', ''__lookupGetter__'',
             ''__lookupSetter__'']"

text \<open>\<open>Object.entries(allocations[useCase] || allocations.general)\<close>\<close>

definition alloc_entries :: "jsstring \<Rightarrow> (category \<times> number) list" where
  "alloc_entries useCase =
     (if useCase = js ''gaming'' then allocations_gaming
      else if useCase = js ''productivity'' then allocations_productivity
      else if useCase = js ''general'' then allocations_general
      else if useCase \<in> set inherited_names then []
      else allocations_general)"

text \<open>A component with the field \<open>lowestPrice\<close> added to it; \<open>None\<close> is \<open>null\<close>.\<close>

record priced =
  comp :: component
  lowestPrice :: "number option"

text \<open>\<open>null\<close> in arithmetic is 0.\<close>

definition num_of :: "number option \<Rightarrow> number" where
  "num_of x = (case x of None \<Rightarrow> 0 | Some n \<Rightarrow> n)"

text \<open>
  The candidates of one category. \<open>Array.prototype.sort\<close> is stable; with the comparator
  \<open>b.lowestPrice - a.lowestPrice\<close> it sorts by descending price, which is the stable
  insertion sort on the negated price.
\<close>

definition affordable ::
  "(number \<Rightarrow> number \<Rightarrow> number) \<Rightarrow> component list \<Rightarrow> number \<Rightarrow> priced list" where
  "affordable mul components categoryBudget =
     sort_key (\<lambda>a. - num_of (lowestPrice a))
       (filter (\<lambda>c. case lowestPrice c of
                       None \<Rightarrow> False
                     | Some p \<Rightarrow> p \<noteq> 0 \<and> p \<le> mul categoryBudget (115 / 100))
          (map (\<lambda>c. \<lparr>comp = c, lowestPrice = getLowestPrice c\<rparr>) components))"

text \<open>The body of the loop over the entries of the profile.\<close>

definition recommend_step ::
  "(number \<Rightarrow> number \<Rightarrow> number) \<Rightarrow> (category \<rightharpoonup> component list) \<Rightarrow> number \<Rightarrow>
   (category \<rightharpoonup> priced) \<Rightarrow> category \<times> number \<Rightarrow> (category \<rightharpoonup> priced)" where
  "recommend_step mul db budget recommendations entry =
     (let category = fst entry;
          percentage = snd entry;
          categoryBudget = mul budget percentage;
          components = (case db category of None \<Rightarrow> [] | Some cs \<Rightarrow> cs)
      in case affordable mul components categoryBudget of
           [] \<Rightarrow> recommendations
         | a # _ \<Rightarrow> recommendations(category \<mapsto> a))"

text \<open>\<open>performance\<close> is accepted and not read.\<close>

definition getRecommendedBuild ::
  "(number \<Rightarrow> number \<Rightarrow> number) \<Rightarrow> world \<Rightarrow> number \<Rightarrow> jsstring \<Rightarrow> jsstring \<Rightarrow>
   fetch_error + (category \<rightharpoonup> priced)" where
  "getRecommendedBuild mul w budget useCase performance =
     (case getComponentsStructured w of
        Inl e \<Rightarrow> Inl e
      | Inr db \<Rightarrow>
          Inr (foldl (recommend_step mul db budget) Map.empty (alloc_entries useCase)))"


text \<open>
  What the specification keeps for a category: the catalog components of that category
  whose lowest price exists and is at most the ceiling.
\<close>

definition survivors ::
  "component list \<Rightarrow> category \<Rightarrow> number \<Rightarrow> component list" where
  "survivors catalog cat ceil =
     filter (\<lambda>c. category c = cat
                 \<and> (case getLowestPrice c of None \<Rightarrow> False | Some p \<Rightarrow> p \<le> ceil)) catalog"

section \<open>Search\<close>











section \<open>Sharing a build\<close>

text \<open>
  \<open>shareBuild\<close> serialises whatever object the build is, so the build is a JSON value
  here: an object from category names to component objects or \<open>null\<close>. Numbers are the
  integers, printed in decimal.
\<close>

datatype json =
  JNull | JBool bool | JNum int | JStr jsstring | JArr "json list" | JObj "(jsstring \<times> json) list"

definition hex_digit :: "nat \<Rightarrow> 16 word" where
  "hex_digit n = (if n < 10 then of_nat (48 + n) else of_nat (87 + n))"

text \<open>The escape \<open>\uXXXX\<close> with lower-case hexadecimal digits.\<close>

definition unicode_escape :: "16 word \<Rightarrow> jsstring" where
  "unicode_escape c =
     [0x5C, 0x75] @ map hex_digit
        [unat c div 4096, unat c div 256 mod 16, unat c div 16 mod 16, unat c mod 16]"

text \<open>
  The inside of a JSON string as \<open>JSON.stringify\<close> writes it: the quote, the backslash
  and the control characters are escaped, a surrogate that has no partner is escaped,
  and every other code unit is copied, whatever its value.
\<close>

fun quote_units :: "jsstring \<Rightarrow> jsstring" where
  "quote_units [] = []"
| "quote_units (c # s) =
     (if c = 0x22 then [0x5C, 0x22] @ quote_units s
      else if c = 0x5C then [0x5C, 0x5C] @ quote_units s
      else if c = 0x08 then [0x5C, 0x62] @ quote_units s
      else if c = 0x0C then [0x5C, 0x66] @ quote_units s
      else if c = 0x0A then [0x5C, 0x6E] @ quote_units s
      else if c = 0x0D then [0x5C, 0x72] @ quote_units s
      else if c = 0x09 then [0x5C, 0x74] @ quote_units s
      else if c < 0x20 then unicode_escape c @ quote_units s
      else if is_high_surrogate c then
        (case s of
           [] \<Rightarrow> unicode_escape c
         | d # s' \<Rightarrow>
             if is_low_surrogate d then c # d # quote_units s'
             else unicode_escape c @ quote_units s)
      else if is_low_surrogate c then unicode_escape c @ quote_units s
      else c # quote_units s)"

definition quote :: "jsstring \<Rightarrow> jsstring" where
  "quote s = [0x22] @ quote_units s @ [0x22]"

fun join :: "jsstring \<Rightarrow> jsstring list \<Rightarrow> jsstring" where
  "join sep [] = []"
| "join sep [x] = x"
| "join sep (x # y # xs) = x @ sep @ join sep (y # xs)"

text \<open>\<open>JSON.stringify(v)\<close> with no indentation.\<close>

fun JSON_stringify :: "json \<Rightarrow> jsstring" where
  "JSON_stringify JNull = js ''null''"
| "JSON_stringify (JBool b) = (if b then js ''true'' else js ''false'')"
| "JSON_stringify (JNum n) = number_text n"
| "JSON_stringify (JStr s) = quote s"
| "JSON_stringify (JArr xs) = js ''['' @ join (js '','') (map JSON_stringify xs) @ js '']''"
| "JSON_stringify (JObj kvs) =
     js ''{'' @ join (js '','')
        (map (\<lambda>kv. quote (fst kv) @ js '':'' @ JSON_stringify (snd kv)) kvs) @ js ''}''"

datatype dom_exception = InvalidCharacterError

definition b64_char :: "nat \<Rightarrow> 16 word" where
  "b64_char n =
     js ''ABCDEFGHIJKLMNOPQRSTUVWXYZabcdefghijklmnopqrstuvwxyz0123456789+/'' ! (n mod 64)"

text \<open>Base64 of a list of bytes, three bytes to four characters, padded with \<open>=\<close>.\<close>

fun b64_encode :: "nat list \<Rightarrow> jsstring" where
  "b64_encode [] = []"
| "b64_encode [a] = [b64_char (a div 4), b64_char (a mod 4 * 16), 0x3D, 0x3D]"
| "b64_encode [a, b] =
     [b64_char (a div 4), b64_char (a mod 4 * 16 + b div 16), b64_char (b mod 16 * 4), 0x3D]"
| "b64_encode (a # b # c # r) =
     [b64_char (a div 4), b64_char (a mod 4 * 16 + b div 16),
      b64_char (b mod 16 * 4 + c div 64), b64_char (c mod 64)] @ b64_encode r"

text \<open>
  \<open>btoa(s)\<close> takes each code unit of \<open>s\<close> as one byte and throws
  \<open>InvalidCharacterError\<close> when a code unit is above 0xFF.
\<close>

definition btoa :: "jsstring \<Rightarrow> dom_exception + jsstring" where
  "btoa s =
     (if list_ex (\<lambda>c. 0xFF < c) s then Inl InvalidCharacterError
      else Inr (b64_encode (map unat s)))"

text \<open>
  \<open>shareBuild\<close>: the link that is copied to the clipboard. The exception of \<open>btoa\<close> is
  not caught, and then no link is made.
\<close>

definition shareBuild :: "jsstring \<Rightarrow> json \<Rightarrow> dom_exception + jsstring" where
  "shareBuild origin currentBuild =
     (case btoa (JSON_stringify currentBuild) of
        Inl e \<Rightarrow> Inl e
      | Inr encoded \<Rightarrow> Inr (origin @ js ''/builder?build='' @ encoded))"

section \<open>Example data\<close>

definition offer :: "string \<Rightarrow> number \<Rightarrow> bool \<Rightarrow> vendor" where
  "offer shop p s =
     \<lparr>vname = js shop, url = js ''https://shop.example'', price = Some p,
      inStock = Some s, stock = None\<rparr>"

text \<open>An offer that marks its availability with the field \<open>stock\<close> only.\<close>

definition legacy_offer :: "string \<Rightarrow> number \<Rightarrow> vendor" where
  "legacy_offer shop p =
     \<lparr>vname = js shop, url = js ''https://shop.example'', price = Some p,
      inStock = None, stock = Some True\<rparr>"

definition part :: "category \<Rightarrow> string \<Rightarrow> vendor list \<Rightarrow> component" where
  "part cat n vs =
     \<lparr>cid = js n, category = cat, name = js n, brand = js ''Acme'', socket = None,
      ramType = None, ram_type = None, wattage = None, vendors = Some vs\<rparr>"

definition empty_build :: build where
  "empty_build =
     \<lparr>cpu = None, motherboard = None, ram = None, gpu = None, storage = None,
      psu = None, pcCase = None, monitor = None\<rparr>"


definition psu_300 :: component where
  "psu_300 = (part Psu ''Bronze 300'' [])\<lparr>wattage := Some (js ''300'')\<rparr>"

definition am5_300 :: build where
  "am5_300 = empty_build
     \<lparr>cpu := Some ((part Cpu ''Ryzen 5'' [])\<lparr>socket := Some (js ''AM5'')\<rparr>),
      motherboard := Some ((part Motherboard ''B650'' [])\<lparr>socket := Some (js ''AM5'')\<rparr>),
      gpu := Some (part Gpu ''RTX'' []),
      psu := Some psu_300\<rparr>"

text \<open>The catalog of the specification's recommender example, and the worlds that deliver
  a catalog: from the service, or from the static document when the service is down.\<close>

definition cpu_28000 :: component where
  "cpu_28000 = part Cpu ''Ryzen 5'' [offer ''A'' 28000 True]"

definition cpu_35000 :: component where
  "cpu_35000 = part Cpu ''Ryzen 9'' [offer ''A'' 35000 True]"

definition example_catalog :: "component list" where
  "example_catalog = [cpu_35000, cpu_28000, part Gpu ''RTX'' [offer ''A'' 20000 True]]"

definition live_world :: "component list \<Rightarrow> world" where
  "live_world l =
     \<lparr>api_components = Some \<lparr>ok = True, json_content_type = True, body = Some l\<rparr>,
      fallback_components = None\<rparr>"

definition offline_world :: "component list \<Rightarrow> world" where
  "offline_world l =
     \<lparr>api_components = None,
      fallback_components = Some \<lparr>ok = True, json_content_type = True, body = Some l\<rparr>\<rparr>"





text \<open>
  A build whose cpu is named "Ryzen(TM) 5", with the trade mark sign U+2122, and the same
  build with the plain name "Ryzen 5".
\<close>

definition build_json :: "jsstring \<Rightarrow> json" where
  "build_json cpu_name =
     JObj [(js ''cpu'', JObj [(js ''id'', JStr (js ''cpu-1'')), (js ''name'', JStr cpu_name),
                              (js ''category'', JStr (js ''cpu''))]),
           (js ''motherboard'', JNull), (js ''ram'', JNull), (js ''gpu'', JNull),
           (js ''storage'', JNull), (js ''psu'', JNull), (js ''pcCase'', JNull),
           (js ''monitor'', JNull)]"

definition trademark_build :: json where
  "trademark_build = build_json (js ''Ryzen'' @ [0x2122] @ js '' 5'')"

definition plain_build :: json where
  "plain_build = build_json (js ''Ryzen 5'')"





section \<open>Properties of the pricing resolver\<close>

lemma offer_ok_price: "offer_ok v \<Longrightarrow> \<exists>p. price v = Some p \<and> 0 < p"
  by (auto simp: offer_ok_def split: option.splits)

lemma set_prices:
  "set (List.map_filter price (filter offer_ok vs))
     = {p. \<exists>v \<in> set vs. inStock v = Some True \<and> price v = Some p \<and> 0 < p}"
proof -
  have "set (List.map_filter price (filter offer_ok vs))
          = {p. \<exists>v \<in> set vs. offer_ok v \<and> price v = Some p}"
    by (induction vs) (auto simp: map_filter_simps split: option.splits)
  also have "\<dots> = {p. \<exists>v \<in> set vs. inStock v = Some True \<and> price v = Some p \<and> 0 < p}"
    by (auto simp: offer_ok_def)
  finally show ?thesis .
qed

lemma math_min_Min: "xs \<noteq> [] \<Longrightarrow> math_min xs = Some (Min (set xs))"
  by (cases xs) (simp_all add: Min.set_eq_fold [symmetric])

lemma eligible_prices_set:
  "eligible_prices c = set (List.map_filter price (filter offer_ok (offers c)))"
  by (simp add: eligible_prices_def set_prices)

lemma lowest_is_Min:
  "getLowestPrice c =
     (if eligible_prices c = {} then None else Some (Min (eligible_prices c)))"
proof (cases "vendors c")
  case None
  then show ?thesis by (simp add: getLowestPrice_def eligible_prices_def offers_def)
next
  case (Some vs)
  then have e: "eligible_prices c = set (List.map_filter price (filter offer_ok vs))"
    by (simp add: eligible_prices_set offers_def)
  show ?thesis
  proof (cases "List.map_filter price (filter offer_ok vs) = []")
    case True
    with Some e show ?thesis by (simp add: getLowestPrice_def)
  next
    case False
    then have "vs \<noteq> []" by (auto simp: List.map_filter_def)
    with False Some e show ?thesis
      by (simp add: getLowestPrice_def math_min_Min)
  qed
qed

lemma lowest_in_eligible: "getLowestPrice c = Some p \<Longrightarrow> p \<in> eligible_prices c"
proof -
  assume a: "getLowestPrice c = Some p"
  then have ne: "eligible_prices c \<noteq> {}" and p: "p = Min (eligible_prices c)"
    by (auto simp: lowest_is_Min split: if_splits)
  have "finite (eligible_prices c)" by (simp add: eligible_prices_set)
  from this ne have "Min (eligible_prices c) \<in> eligible_prices c" by (rule Min_in)
  with p show ?thesis by simp
qed

lemma lowest_pos: "getLowestPrice c = Some p \<Longrightarrow> 0 < p"
  by (drule lowest_in_eligible) (auto simp: eligible_prices_def)



lemma price_less_ok: "offer_ok v \<Longrightarrow> offer_ok b \<Longrightarrow> price_less v b = (num_of (price v) < num_of (price b))"
  by (auto simp: price_less_def num_of_def dest!: offer_ok_price)

lemma reduce_first_min:
  "\<forall>v \<in> set (b # xs). offer_ok v \<Longrightarrow>
   (let r = foldl (\<lambda>best v. if price_less v best then v else best) b xs
    in (\<forall>v \<in> set (b # xs). num_of (price r) \<le> num_of (price v))
       \<and> List.find (\<lambda>v. num_of (price v) = num_of (price r)) (b # xs) = Some r)"
proof (induction xs arbitrary: b)
  case Nil
  then show ?case by simp
next
  case (Cons x xs)
  let ?b' = "if price_less x b then x else b"
  have ok: "\<forall>v \<in> set (?b' # xs). offer_ok v" using Cons.prems by auto
  have pl: "price_less x b = (num_of (price x) < num_of (price b))"
    using Cons.prems by (simp add: price_less_ok)
  from Cons.IH [OF ok] pl show ?case
    by (auto simp: Let_def split: if_splits)
qed

lemma find_Some_set: "List.find P xs = Some x \<Longrightarrow> x \<in> set xs \<and> P x"
  by (induction xs) (auto split: if_splits)

lemma find_filter: "List.find P (filter Q xs) = List.find (\<lambda>x. Q x \<and> P x) xs"
  by (induction xs) auto


lemma prices_as_map:
  "List.map_filter price (filter offer_ok vs) = map (\<lambda>v. num_of (price v)) (filter offer_ok vs)"
  by (induction vs) (auto simp: map_filter_simps num_of_def dest: offer_ok_price split: option.splits)

lemma eligible_pred:
  "(inStock v = Some True \<and> price v = Some m \<and> 0 < m)
     = (offer_ok v \<and> num_of (price v) = m)"
  by (auto simp: offer_ok_def num_of_def split: option.splits)

lemma best_vendor_find:
  "getBestVendor c =
     List.find (\<lambda>v. inStock v = Some True
                  \<and> (\<exists>p. price v = Some p \<and> 0 < p \<and> getLowestPrice c = Some p)) (offers c)"
proof (cases "vendors c")
  case None
  then show ?thesis by (simp add: getBestVendor_def offers_def)
next
  case (Some vs)
  show ?thesis
  proof (cases "filter offer_ok vs")
    case Nil
    then have "getLowestPrice c = None"
      using Some by (simp add: getLowestPrice_def List.map_filter_def)
    moreover have "getBestVendor c = None"
      using Some Nil by (simp add: getBestVendor_def)
    moreover have "List.find (\<lambda>v. False) (offers c) = None"
      by (simp add: find_None_iff)
    ultimately show ?thesis by simp
  next
    case (Cons v0 rest)
    define r where "r = foldl (\<lambda>best v. if price_less v best then v else best) v0 rest"
    have "set (v0 # rest) = {v \<in> set vs. offer_ok v}"
      using Cons by (simp add: set_filter [symmetric] del: set_filter)
    then have ok: "\<forall>v \<in> set (v0 # rest). offer_ok v"
      by blast
    have vs: "vs \<noteq> []" using Cons by auto
    from reduce_first_min [OF ok]
    have le: "\<forall>v \<in> set (v0 # rest). num_of (price r) \<le> num_of (price v)"
      and fi: "List.find (\<lambda>v. num_of (price v) = num_of (price r)) (v0 # rest) = Some r"
      by (simp_all add: r_def Let_def)
    from fi have rin: "r \<in> set (v0 # rest)"
      by (rule find_Some_set [THEN conjunct1])
    have best: "getBestVendor c = Some r"
      using Some Cons vs by (simp add: getBestVendor_def r_def)
    have "Min (set (map (\<lambda>v. num_of (price v)) (v0 # rest))) = num_of (price r)"
      using le rin by (intro Min_eqI) auto
    moreover have "List.map_filter price (filter offer_ok vs)
        = map (\<lambda>v. num_of (price v)) (v0 # rest)"
      using prices_as_map [of vs] by (simp only: Cons)
    ultimately have low: "getLowestPrice c = Some (num_of (price r))"
      using Some vs by (simp add: getLowestPrice_def math_min_Min del: list.map)
    have "List.find (\<lambda>v. offer_ok v \<and> num_of (price v) = num_of (price r)) vs = Some r"
      using fi Cons by (simp add: find_filter [symmetric] del: find.simps)
    then show ?thesis
      using Some best low by (simp add: offers_def eligible_pred del: find.simps)
  qed
qed

text \<open>
  Claim C1. For every component, \<open>getLowestPrice\<close> returns the minimum of the prices of
  the offers that are in stock and priced above zero, and \<open>null\<close> when there is no such
  offer: no offer at all, or every offer out of stock or priced at zero or below.
\<close>

theorem getLowestPrice_minimum:
  "getLowestPrice c =
     (if eligible_prices c = {} then None else Some (Min (eligible_prices c)))"
  by (rule lowest_is_Min)

theorem getLowestPrice_minimum_witness:
  "eligible_prices (part Cpu ''Ryzen 5''
       [offer ''A'' 5000 False, offer ''B'' 6000 True, offer ''C'' 0 True]) = {6000}
   \<and> getLowestPrice (part Cpu ''Ryzen 5''
       [offer ''A'' 5000 False, offer ''B'' 6000 True, offer ''C'' 0 True]) = Some 6000
   \<and> getLowestPrice (part Cpu ''Ryzen 5'' []) = None
   \<and> getLowestPrice (part Cpu ''Ryzen 5''
       [offer ''A'' 5000 False, offer ''C'' 0 True]) = None"
proof -
  let ?c = "part Cpu ''Ryzen 5''
       [offer ''A'' 5000 False, offer ''B'' 6000 True, offer ''C'' 0 True]"
  have e: "eligible_prices ?c = {6000}"
    by (auto simp: eligible_prices_def offers_def part_def offer_def)
  have e1: "eligible_prices (part Cpu ''Ryzen 5'' []) = {}"
    by (auto simp: eligible_prices_def offers_def part_def offer_def)
  have e2: "eligible_prices (part Cpu ''Ryzen 5''
       [offer ''A'' 5000 False, offer ''C'' 0 True]) = {}"
    by (auto simp: eligible_prices_def offers_def part_def offer_def)
  show ?thesis
    using getLowestPrice_minimum [of ?c]
      getLowestPrice_minimum [of "part Cpu ''Ryzen 5'' []"]
      getLowestPrice_minimum [of "part Cpu ''Ryzen 5''
       [offer ''A'' 5000 False, offer ''C'' 0 True]"]
    by (simp add: e e1 e2)
qed

text \<open>
  Claim C2. For every component, \<open>getBestVendor\<close> returns an offer that is in stock and
  priced above zero and whose price is \<open>getLowestPrice\<close> of the component; it returns
  \<open>null\<close> exactly when \<open>getLowestPrice\<close> does; and among several such offers it returns
  the first one in the order of \<open>vendors\<close>.
\<close>

theorem getBestVendor_first_cheapest:
  "getBestVendor c =
     List.find (\<lambda>v. inStock v = Some True
                  \<and> (\<exists>p. price v = Some p \<and> 0 < p \<and> getLowestPrice c = Some p)) (offers c)
   \<and> (getBestVendor c = None \<longleftrightarrow> getLowestPrice c = None)
   \<and> (\<forall>v. getBestVendor c = Some v \<longrightarrow>
          v \<in> set (offers c) \<and> inStock v = Some True
          \<and> (\<exists>p. price v = Some p \<and> 0 < p \<and> getLowestPrice c = Some p))"
proof (intro conjI allI impI)
  show f: "getBestVendor c =
     List.find (\<lambda>v. inStock v = Some True
                  \<and> (\<exists>p. price v = Some p \<and> 0 < p \<and> getLowestPrice c = Some p)) (offers c)"
    by (rule best_vendor_find)
  show "getBestVendor c = None \<longleftrightarrow> getLowestPrice c = None"
  proof
    assume "getBestVendor c = None"
    then have n: "\<not> (\<exists>v. v \<in> set (offers c) \<and> inStock v = Some True
                  \<and> (\<exists>p. price v = Some p \<and> 0 < p \<and> getLowestPrice c = Some p))"
      unfolding f find_None_iff by blast
    show "getLowestPrice c = None"
    proof (rule ccontr)
      assume "getLowestPrice c \<noteq> None"
      then obtain p where p: "getLowestPrice c = Some p" by auto
      from lowest_in_eligible [OF p] obtain v where
        "v \<in> set (offers c)" "inStock v = Some True" "price v = Some p" "0 < p"
        by (auto simp: eligible_prices_def)
      with n p show False by blast
    qed
  next
    assume "getLowestPrice c = None"
    then show "getBestVendor c = None"
      unfolding f by (simp add: find_None_iff)
  qed
  fix v assume "getBestVendor c = Some v"
  then have "List.find (\<lambda>v. inStock v = Some True
                  \<and> (\<exists>p. price v = Some p \<and> 0 < p \<and> getLowestPrice c = Some p)) (offers c)
             = Some v"
    by (simp only: f)
  from find_Some_set [OF this]
  show "v \<in> set (offers c)" and "inStock v = Some True"
    and "\<exists>p. price v = Some p \<and> 0 < p \<and> getLowestPrice c = Some p"
    by simp_all
qed

theorem getBestVendor_first_cheapest_witness:
  "getBestVendor (part Gpu ''RTX''
       [offer ''A'' 7000 True, offer ''B'' 6000 True, offer ''C'' 6000 True,
        offer ''D'' 5000 False]) = Some (offer ''B'' 6000 True)
   \<and> getLowestPrice (part Gpu ''RTX''
       [offer ''A'' 7000 True, offer ''B'' 6000 True, offer ''C'' 6000 True,
        offer ''D'' 5000 False]) = Some 6000
   \<and> offer ''B'' 6000 True \<noteq> offer ''C'' 6000 True"
  using getBestVendor_first_cheapest [of "part Gpu ''RTX''
       [offer ''A'' 7000 True, offer ''B'' 6000 True, offer ''C'' 6000 True,
        offer ''D'' 5000 False]"]
  by (simp add: getBestVendor_def getLowestPrice_def part_def offer_def offer_ok_def
      price_less_def map_filter_simps js_def)

text \<open>
  Claim C7. An offer priced above zero that marks its availability through the field
  \<open>stock\<close> only, with \<open>inStock\<close> absent, is not counted by \<open>getLowestPrice\<close> and
  \<open>getBestVendor\<close>: both read \<open>inStock\<close> alone, and a component with this one offer
  has neither a lowest price nor a best vendor.
\<close>

theorem legacy_stock_offer_ignored:
  "getLowestPrice (part Cpu ''Ryzen 5'' [legacy_offer ''A'' 5000]) = None
   \<and> getBestVendor (part Cpu ''Ryzen 5'' [legacy_offer ''A'' 5000]) = None"
  by (simp add: getBestVendor_def getLowestPrice_def part_def legacy_offer_def offer_ok_def
      map_filter_simps)

section \<open>Properties of the compatibility checker\<close>













lemma is_ascii_js_eval: "is_ascii [] = True" "is_ascii (u # s) = (u < 0x80 \<and> is_ascii s)"
  by (simp_all add: is_ascii_def)



lemma ram_check_type: "f \<in> set (ram_check b) \<Longrightarrow> ftype f = TRam \<and> severity f = Warning"
  by (auto simp: ram_check_def Let_def split: option.splits if_splits)

lemma power_check_type: "f \<in> set (power_check b) \<Longrightarrow> ftype f = TPower \<and> severity f = Warning"
  by (auto simp: power_check_def Let_def split: option.splits if_splits)

lemma socket_check_type: "f \<in> set (socket_check b) \<Longrightarrow> ftype f = TSocket \<and> severity f = Error"
  by (auto simp: socket_check_def Let_def split: option.splits if_splits)

lemma warnings_eq: "warnings (checkCompatibility b) = socket_check b @ ram_check b @ power_check b"
  by (simp add: checkCompatibility_def Let_def)







lemma dec_digit_cases:
  "d < 10 \<Longrightarrow> dec_digit d \<in> {0x30, 0x31, 0x32, 0x33, 0x34, 0x35, 0x36, 0x37, 0x38, 0x39}"
proof -
  assume "d < 10"
  then have "d = 0 \<or> d = 1 \<or> d = 2 \<or> d = 3 \<or> d = 4 \<or> d = 5 \<or> d = 6 \<or> d = 7 \<or> d = 8 \<or> d = 9"
    by arith
  then show ?thesis
    by (elim disjE) (simp_all add: dec_digit_def)
qed

lemma dec_digit_val: "d < 10 \<Longrightarrow> digit_val 10 (dec_digit d) = Some d"
proof -
  assume "d < 10"
  then have "d = 0 \<or> d = 1 \<or> d = 2 \<or> d = 3 \<or> d = 4 \<or> d = 5 \<or> d = 6 \<or> d = 7 \<or> d = 8 \<or> d = 9"
    by arith
  then show ?thesis
    by (elim disjE) (simp_all add: dec_digit_def digit_val_def)
qed


lemma dec_digit_plain:
  assumes "d < 10"
  shows "\<not> is_whitespace (dec_digit d)"
    and "dec_digit d \<noteq> 0x2D" and "dec_digit d \<noteq> 0x2B"
    and "dec_digit d \<noteq> 0x78" and "dec_digit d \<noteq> 0x58"
proof -
  from dec_digit_cases [OF assms]
  show "\<not> is_whitespace (dec_digit d)"
    by (auto simp: is_whitespace_def)
  from dec_digit_cases [OF assms]
  show "dec_digit d \<noteq> 0x2D" and "dec_digit d \<noteq> 0x2B"
    and "dec_digit d \<noteq> 0x78" and "dec_digit d \<noteq> 0x58"
    by auto
qed

lemma digits_of_digits: "c \<in> set (digits_of n) \<Longrightarrow> \<exists>d<10. c = dec_digit d"
proof (induction n rule: digits_of.induct)
  case (1 n)
  show ?case
  proof (cases "n < 10")
    case True
    with "1.prems" show ?thesis by (auto simp: digits_of.simps [of n])
  next
    case False
    with "1.prems" have "c \<in> set (digits_of (n div 10)) \<or> c = dec_digit (n mod 10)"
      by (auto simp: digits_of.simps [of n])
    then show ?thesis
    proof
      assume "c \<in> set (digits_of (n div 10))"
      with False "1.IH" show ?thesis by blast
    next
      assume "c = dec_digit (n mod 10)"
      moreover have "n mod 10 < 10" by simp
      ultimately show ?thesis by blast
    qed
  qed
qed

lemma digits_of_nonempty: "digits_of n \<noteq> []"
  by (subst digits_of.simps) simp

lemma digits_of_value:
  "foldl (\<lambda>acc d. acc * 10 + d) 0 (List.map_filter (digit_val 10) (digits_of n)) = n"
proof (induction n rule: digits_of.induct)
  case (1 n)
  show ?case
  proof (cases "n < 10")
    case True
    then show ?thesis
      by (simp add: digits_of.simps [of n] map_filter_simps dec_digit_val)
  next
    case False
    have m: "n mod 10 < 10" by simp
    have "List.map_filter (digit_val 10) (digits_of n)
        = List.map_filter (digit_val 10) (digits_of (n div 10)) @ [n mod 10]"
      using False by (simp add: digits_of.simps [of n] List.map_filter_def dec_digit_val [OF m])
    with "1.IH" [OF False] show ?thesis by simp
  qed
qed


lemma takeWhile_prefix:
  "(\<And>x. x \<in> set xs \<Longrightarrow> P x) \<Longrightarrow> s = [] \<or> \<not> P (hd s) \<Longrightarrow> takeWhile P (xs @ s) = xs"
  by (cases s) (simp_all add: takeWhile_append2)

lemma digits_of_Cons: "\<exists>d r. d < 10 \<and> digits_of n = dec_digit d # r"
proof -
  obtain c r where cr: "digits_of n = c # r"
    using digits_of_nonempty [of n] by (cases "digits_of n") auto
  then have "c \<in> set (digits_of n)" by simp
  from digits_of_digits [OF this] cr show ?thesis by blast
qed

lemma digits_no_hex:
  assumes "s = [] \<or> (digit_val 10 (hd s) = None \<and> hd s \<noteq> 0x78 \<and> hd s \<noteq> 0x58)"
  shows "\<not> starts_with (digits_of n @ s) (js ''0x'')"
    and "\<not> starts_with (digits_of n @ s) (js ''0X'')"
proof -
  obtain d r where d: "d < 10" and dr: "digits_of n = dec_digit d # r"
    using digits_of_Cons by blast
  have "\<not> starts_with (r @ s) [0x78] \<and> \<not> starts_with (r @ s) [0x58]"
  proof (cases r)
    case Nil
    with assms show ?thesis by (cases s) auto
  next
    case (Cons e r')
    then have "e \<in> set (digits_of n)" using dr by simp
    from digits_of_digits [OF this] obtain k where "k < 10" "e = dec_digit k" by blast
    with Cons dec_digit_plain [of k] show ?thesis by simp
  qed
  then show "\<not> starts_with (digits_of n @ s) (js ''0x'')"
    and "\<not> starts_with (digits_of n @ s) (js ''0X'')"
    by (simp_all add: dr js_def)
qed

lemma digits_run:
  assumes "s = [] \<or> (digit_val 10 (hd s) = None \<and> hd s \<noteq> 0x78 \<and> hd s \<noteq> 0x58)"
  shows "takeWhile (\<lambda>c. digit_val 10 c \<noteq> None) (digits_of n @ s) = digits_of n"
proof (rule takeWhile_prefix)
  fix x assume "x \<in> set (digits_of n)"
  from digits_of_digits [OF this] show "digit_val 10 x \<noteq> None"
    by (auto simp: dec_digit_val)
next
  from assms show "s = [] \<or> \<not> digit_val 10 (hd s) \<noteq> None" by auto
qed

lemma parseInt_plain:
  assumes "\<not> is_whitespace c" and "c \<noteq> 0x2D" and "c \<noteq> 0x2B"
    and "\<not> starts_with (c # t) (js ''0x'')" and "\<not> starts_with (c # t) (js ''0X'')"
    and "takeWhile (\<lambda>c. digit_val 10 c \<noteq> None) (c # t) = Z" and "Z \<noteq> []"
  shows "parseInt (Some (c # t))
           = Some (int (foldl (\<lambda>acc d. acc * 10 + d) 0 (List.map_filter (digit_val 10) Z)))"
    and "parseInt (Some (0x2D # c # t))
           = Some (- int (foldl (\<lambda>acc d. acc * 10 + d) 0 (List.map_filter (digit_val 10) Z)))"
proof -
  have ws: "\<not> is_whitespace 0x2D" by (simp add: is_whitespace_def)
  show "parseInt (Some (c # t))
           = Some (int (foldl (\<lambda>acc d. acc * 10 + d) 0 (List.map_filter (digit_val 10) Z)))"
    using assms unfolding parseInt_def
    by (simp add: Let_def del: takeWhile.simps starts_with.simps)
  show "parseInt (Some (0x2D # c # t))
           = Some (- int (foldl (\<lambda>acc d. acc * 10 + d) 0 (List.map_filter (digit_val 10) Z)))"
    using assms ws unfolding parseInt_def
    by (simp add: Let_def del: takeWhile.simps starts_with.simps)
qed

lemma parseInt_digits:
  assumes "s = [] \<or> (digit_val 10 (hd s) = None \<and> hd s \<noteq> 0x78 \<and> hd s \<noteq> 0x58)"
  shows "parseInt (Some (digits_of n @ s)) = Some (int n)"
    and "parseInt (Some (0x2D # digits_of n @ s)) = Some (- int n)"
proof -
  obtain d r where d: "d < 10" and dr: "digits_of n = dec_digit d # r"
    using digits_of_Cons by blast
  have t: "digits_of n @ s = dec_digit d # (r @ s)" by (simp add: dr)
  note p = parseInt_plain [of "dec_digit d" "r @ s" "digits_of n",
      OF dec_digit_plain(1-3) [OF d] digits_no_hex [OF assms, of n, unfolded t]
         digits_run [OF assms, of n, unfolded t] digits_of_nonempty]
  from p(1) show "parseInt (Some (digits_of n @ s)) = Some (int n)"
    by (simp only: t digits_of_value)
  from p(2) show "parseInt (Some (0x2D # digits_of n @ s)) = Some (- int n)"
    by (simp only: t digits_of_value)
qed

lemma parseInt_number_text:
  assumes "s = [] \<or> (digit_val 10 (hd s) = None \<and> hd s \<noteq> 0x78 \<and> hd s \<noteq> 0x58)"
  shows "parseInt (Some (number_text n @ s)) = Some n"
  using parseInt_digits [OF assms] by (simp add: number_text_def)

lemma filter_none: "(\<And>x. x \<in> set xs \<Longrightarrow> \<not> P x) \<Longrightarrow> filter P xs = []"
  by (induction xs) auto

lemma filter_all: "(\<And>x. x \<in> set xs \<Longrightarrow> P x) \<Longrightarrow> filter P xs = xs"
  by (induction xs) auto

lemma power_findings:
  "filter (\<lambda>f. ftype f = TPower) (warnings (checkCompatibility b)) = power_check b"
proof -
  have "filter (\<lambda>f. ftype f = TPower) (socket_check b) = []"
    by (rule filter_none) (auto dest: socket_check_type)
  moreover have "filter (\<lambda>f. ftype f = TPower) (ram_check b) = []"
    by (rule filter_none) (auto dest: ram_check_type)
  moreover have "filter (\<lambda>f. ftype f = TPower) (power_check b) = power_check b"
    by (rule filter_all) (auto dest: power_check_type)
  ultimately show ?thesis by (simp add: warnings_eq)
qed

lemma estimatedPower_eq:
  "estimatedPower b = (if cpu b = None then 0 else 125) + (if gpu b = None then 0 else 250) + 100"
  by (simp add: estimatedPower_def)

lemma parseInt_non_numeric: "non_numeric t \<Longrightarrow> parseInt (Some t) = None"
proof -
  assume n: "non_numeric t"
  define S where "S = dropWhile is_whitespace t"
  define S1 where "S1 = (case S of [] \<Rightarrow> [] | c # r \<Rightarrow> if c = 0x2D \<or> c = 0x2B then r else S)"
  from n have d: "case S1 of [] \<Rightarrow> True | d # _ \<Rightarrow> digit_val 10 d = None"
    unfolding non_numeric_def S_def S1_def Let_def .
  have z: "digit_val 10 0x30 \<noteq> None" by (simp add: digit_val_def)
  have nh: "\<not> starts_with S1 (js ''0x'')" "\<not> starts_with S1 (js ''0X'')"
    using d z by (cases S1; auto simp: js_def)+
  have tw: "takeWhile (\<lambda>c. \<exists>y. digit_val 10 c = Some y) S1 = []"
    using d by (cases S1) auto
  have "parseInt (Some t) =
      (let hex = (starts_with S1 (js ''0x'') \<or> starts_with S1 (js ''0X''));
           R = (if hex then 16 else 10);
           S2 = (if hex then drop 2 S1 else S1);
           Z = takeWhile (\<lambda>c. digit_val R c \<noteq> None) S2
       in if Z = [] then None
          else Some ((case S of [] \<Rightarrow> 1 | c # r \<Rightarrow> if c = 0x2D then - 1 else (1::int))
                 * int (foldl (\<lambda>acc d. acc * R + d) 0 (List.map_filter (digit_val R) Z))))"
    unfolding parseInt_def S_def S1_def Let_def option.case by (rule refl)
  then show ?thesis
    by (simp add: nh tw Let_def del: starts_with.simps)
qed

lemma parseInt_undefined: "parseInt None = None"
  by (simp add: parseInt_def js_def is_whitespace_def digit_val_def)

text \<open>
  Claim C5. In a build with a psu, the wattage is read by \<open>parseInt\<close>: a decimal
  integer, with whatever follows it, is its value, a non-numeric text or a missing
  wattage is 0, and at 0 the check is skipped. The estimate is 125 for a cpu plus 250 for
  a gpu plus 100. A finding of type power and severity warning, which recommends the
  ceiling of 1.3 times the estimate, is reported exactly when the wattage is positive
  and below 1.2 times the estimate.
\<close>

theorem psu_power_estimate:
  assumes "psu b = Some p"
  shows "(\<forall>n s. wattage p = Some (number_text n @ s)
            \<and> (s = [] \<or> (digit_val 10 (hd s) = None \<and> hd s \<noteq> 0x78 \<and> hd s \<noteq> 0x58))
            \<longrightarrow> psuWattage p = n)
    \<and> (\<forall>t. wattage p = Some t \<and> non_numeric t \<longrightarrow> psuWattage p = 0)
    \<and> (wattage p = None \<longrightarrow> psuWattage p = 0)
    \<and> estimatedPower b
         = (if cpu b = None then 0 else 125) + (if gpu b = None then 0 else 250) + 100
    \<and> filter (\<lambda>f. ftype f = TPower) (warnings (checkCompatibility b))
         = (if 0 < psuWattage p
               \<and> (of_int (psuWattage p) :: rat) < (12 / 10) * of_int (estimatedPower b)
            then [\<lparr>ftype = TPower, severity = Warning,
                   message = js ''PSU ('' @ number_text (psuWattage p)
                     @ js ''W) may be insufficient. Recommended: ''
                     @ number_text \<lceil>(13 / 10) * (of_int (estimatedPower b) :: rat)\<rceil>
                     @ js ''W+''\<rparr>]
            else [])
    \<and> (psuWattage p = 0 \<longrightarrow>
         filter (\<lambda>f. ftype f = TPower) (warnings (checkCompatibility b)) = [])"
proof -
  have pc: "power_check b
         = (if 0 < psuWattage p
               \<and> (of_int (psuWattage p) :: rat) < (12 / 10) * of_int (estimatedPower b)
            then [\<lparr>ftype = TPower, severity = Warning,
                   message = js ''PSU ('' @ number_text (psuWattage p)
                     @ js ''W) may be insufficient. Recommended: ''
                     @ number_text \<lceil>(13 / 10) * (of_int (estimatedPower b) :: rat)\<rceil>
                     @ js ''W+''\<rparr>]
            else [])"
    using assms by (simp add: power_check_def Let_def mult.commute)
  have "\<forall>n s. wattage p = Some (number_text n @ s)
            \<and> (s = [] \<or> (digit_val 10 (hd s) = None \<and> hd s \<noteq> 0x78 \<and> hd s \<noteq> 0x58))
            \<longrightarrow> psuWattage p = n"
    by (auto simp: psuWattage_def parseInt_number_text)
  moreover have "\<forall>t. wattage p = Some t \<and> non_numeric t \<longrightarrow> psuWattage p = 0"
    by (auto simp: psuWattage_def parseInt_non_numeric)
  moreover have "wattage p = None \<longrightarrow> psuWattage p = 0"
    by (simp add: psuWattage_def parseInt_undefined)
  moreover note estimatedPower_eq [of b]
  moreover have "filter (\<lambda>f. ftype f = TPower) (warnings (checkCompatibility b))
         = (if 0 < psuWattage p
               \<and> (of_int (psuWattage p) :: rat) < (12 / 10) * of_int (estimatedPower b)
            then [\<lparr>ftype = TPower, severity = Warning,
                   message = js ''PSU ('' @ number_text (psuWattage p)
                     @ js ''W) may be insufficient. Recommended: ''
                     @ number_text \<lceil>(13 / 10) * (of_int (estimatedPower b) :: rat)\<rceil>
                     @ js ''W+''\<rparr>]
            else [])"
    by (simp only: power_findings pc)
  moreover have "psuWattage p = 0 \<longrightarrow>
         filter (\<lambda>f. ftype f = TPower) (warnings (checkCompatibility b)) = []"
    by (simp add: power_findings pc)
  ultimately show ?thesis by blast
qed

theorem psu_power_estimate_witness:
  "psuWattage psu_300 = 300
   \<and> estimatedPower am5_300 = 475
   \<and> filter (\<lambda>f. ftype f = TPower) (warnings (checkCompatibility am5_300))
       = [\<lparr>ftype = TPower, severity = Warning,
            message = js ''PSU (300W) may be insufficient. Recommended: 618W+''\<rparr>]
   \<and> filter (\<lambda>f. ftype f = TSocket) (warnings (checkCompatibility am5_300)) = []"
proof -
  have w: "psuWattage psu_300 = 300"
    by (simp add: psuWattage_def psu_300_def part_def parseInt_def js_def is_whitespace_def
        digit_val_def map_filter_simps)
  have e: "estimatedPower am5_300 = 475"
    by (simp add: estimatedPower_def am5_300_def empty_build_def)
  have n: "number_text 300 = js ''300''" "number_text 618 = js ''618''"
    by (simp_all add: number_text_def digits_of.simps dec_digit_def js_def)
  have c: "\<lceil>(1235 :: rat) / 2\<rceil> = 618"
    by (simp add: ceiling_eq_iff)
  have p: "psu am5_300 = Some psu_300"
    by (simp add: am5_300_def empty_build_def)
  have "socket_check am5_300 = []"
    by (simp add: socket_check_def am5_300_def empty_build_def part_def lower_or_empty_def)
  moreover have "filter (\<lambda>f. ftype f = TSocket) (ram_check am5_300) = []"
    by (rule filter_none) (auto dest: ram_check_type)
  moreover have "filter (\<lambda>f. ftype f = TSocket) (power_check am5_300) = []"
    by (rule filter_none) (auto dest: power_check_type)
  ultimately
  have s: "filter (\<lambda>f. ftype f = TSocket) (warnings (checkCompatibility am5_300)) = []"
    by (simp add: warnings_eq)
  note f = psu_power_estimate [OF p, THEN conjunct2, THEN conjunct2, THEN conjunct2,
      THEN conjunct2, THEN conjunct1]
  have "filter (\<lambda>f. ftype f = TPower) (warnings (checkCompatibility am5_300))
       = [\<lparr>ftype = TPower, severity = Warning,
            message = js ''PSU (300W) may be insufficient. Recommended: 618W+''\<rparr>]"
    unfolding f w e by (simp add: c n) (simp add: js_def)
  with w e s show ?thesis by simp
qed

text \<open>
  Claim C10. Two builds that agree on cpu, motherboard, ram, gpu and psu get the same
  result from \<open>checkCompatibility\<close>, whatever their storage, case and monitor; in the
  power estimate everything besides the cpu and the gpu counts as the constant 100.
\<close>

theorem compatibility_reads_five_slots:
  assumes "cpu b = cpu b'" and "motherboard b = motherboard b'" and "ram b = ram b'"
    and "gpu b = gpu b'" and "psu b = psu b'"
  shows "checkCompatibility b = checkCompatibility b'
    \<and> estimatedPower b - (if cpu b = None then 0 else 125) - (if gpu b = None then 0 else 250)
        = 100"
proof -
  have s: "socket_check b = socket_check b'"
    using assms by (simp add: socket_check_def)
  have r: "ram_check b = ram_check b'"
    using assms by (simp add: ram_check_def)
  have e: "estimatedPower b = estimatedPower b'"
    using assms by (simp add: estimatedPower_def)
  have p: "power_check b = power_check b'"
    unfolding power_check_def e using assms by simp
  have "checkCompatibility b = checkCompatibility b'"
    by (simp only: checkCompatibility_def s r p)
  then show ?thesis
    by (simp add: estimatedPower_eq)
qed

theorem compatibility_reads_five_slots_witness:
  "checkCompatibility
      (am5_300\<lparr>storage := Some (part Storage ''SSD'' []), pcCase := Some (part PcCase ''Tower'' []),
               monitor := Some (part Monitor ''Screen'' [])\<rparr>)
     = checkCompatibility am5_300
   \<and> estimatedPower
        (am5_300\<lparr>storage := Some (part Storage ''SSD'' []),
                 pcCase := Some (part PcCase ''Tower'' []),
                 monitor := Some (part Monitor ''Screen'' [])\<rparr>) = 475
   \<and> part Storage ''SSD'' [] \<noteq> part PcCase ''Tower'' []"
  using compatibility_reads_five_slots
    [of "am5_300\<lparr>storage := Some (part Storage ''SSD'' []),
                  pcCase := Some (part PcCase ''Tower'' []),
                  monitor := Some (part Monitor ''Screen'' [])\<rparr>" am5_300]
  by (simp add: am5_300_def empty_build_def part_def)

section \<open>Properties of the budget allocator\<close>

lemma group_step_lookup:
  "group_step g c cat =
     (if category c = cat then Some ((case g cat of None \<Rightarrow> [] | Some xs \<Rightarrow> xs) @ [c])
      else g cat)"
  by (simp add: group_step_def Let_def)

lemma grouped_lookup:
  "foldl group_step Map.empty l cat =
     (if filter (\<lambda>c. category c = cat) l = [] then None
      else Some (filter (\<lambda>c. category c = cat) l))"
proof (induction l rule: rev_induct)
  case Nil
  then show ?case by simp
next
  case (snoc c l)
  then show ?case by (simp add: group_step_lookup)
qed

lemma db_lookup:
  "(case foldl group_step Map.empty l cat of None \<Rightarrow> [] | Some cs \<Rightarrow> cs)
     = filter (\<lambda>c. category c = cat) l"
  by (simp add: grouped_lookup)

lemma kept_components:
  "map comp (filter (\<lambda>c. case lowestPrice c of None \<Rightarrow> False | Some p \<Rightarrow> p \<noteq> 0 \<and> p \<le> ceil)
       (map (\<lambda>c. \<lparr>comp = c, lowestPrice = getLowestPrice c\<rparr>) components))
     = filter (\<lambda>c. case getLowestPrice c of None \<Rightarrow> False | Some p \<Rightarrow> p \<le> ceil) components"
proof (induction components)
  case Nil
  then show ?case by simp
next
  case (Cons c cs)
  then show ?case
    by (cases "getLowestPrice c") (auto dest: lowest_pos)
qed

lemma affordable_priced:
  "a \<in> set (affordable mul components cb) \<Longrightarrow> lowestPrice a = getLowestPrice (comp a)"
  by (auto simp: affordable_def)

lemma affordable_mset:
  "mset (map comp (affordable mul components cb))
     = mset (filter (\<lambda>c. case getLowestPrice c of None \<Rightarrow> False
                          | Some p \<Rightarrow> p \<le> mul cb (115 / 100)) components)"
proof -
  have "mset (map comp (affordable mul components cb))
      = mset (map comp (filter (\<lambda>c. case lowestPrice c of None \<Rightarrow> False
                          | Some p \<Rightarrow> p \<noteq> 0 \<and> p \<le> mul cb (115 / 100))
       (map (\<lambda>c. \<lparr>comp = c, lowestPrice = getLowestPrice c\<rparr>) components)))"
    unfolding affordable_def by (simp only: mset_map mset_sort)
  then show ?thesis by (simp only: kept_components)
qed

lemma affordable_head:
  assumes "affordable mul components cb = a # rest"
  shows "\<forall>x \<in> set (affordable mul components cb). num_of (lowestPrice x) \<le> num_of (lowestPrice a)"
proof -
  have "sorted (map (\<lambda>a. - num_of (lowestPrice a)) (affordable mul components cb))"
    unfolding affordable_def by (rule sorted_sort_key)
  with assms show ?thesis by auto
qed

lemma survivors_filter:
  "survivors catalog cat ceil
     = filter (\<lambda>c. case getLowestPrice c of None \<Rightarrow> False | Some p \<Rightarrow> p \<le> ceil)
         (filter (\<lambda>c. category c = cat) catalog)"
  by (simp add: survivors_def conj_commute)

lemma recommend_step_other:
  "fst entry \<noteq> cat \<Longrightarrow> recommend_step mul db budget m entry cat = m cat"
  by (simp add: recommend_step_def Let_def split: list.splits)

lemma recommend_loop_other:
  "cat \<notin> fst ` set es \<Longrightarrow> foldl (recommend_step mul db budget) m es cat = m cat"
  by (induction es arbitrary: m) (auto simp: recommend_step_other)

lemma recommend_loop_at:
  "distinct (map fst es) \<Longrightarrow> (cat, pct) \<in> set es \<Longrightarrow>
   foldl (recommend_step mul db budget) m es cat =
     (case affordable mul (case db cat of None \<Rightarrow> [] | Some cs \<Rightarrow> cs) (mul budget pct) of
        [] \<Rightarrow> m cat | a # _ \<Rightarrow> Some a)"
proof (induction es arbitrary: m)
  case Nil
  then show ?case by simp
next
  case (Cons e es)
  show ?case
  proof (cases "e = (cat, pct)")
    case True
    then have "cat \<notin> fst ` set es" using Cons.prems(1) by auto
    then have "foldl (recommend_step mul db budget) (recommend_step mul db budget m e) es cat
        = recommend_step mul db budget m e cat"
      by (rule recommend_loop_other)
    moreover have "recommend_step mul db budget m (cat, pct) cat =
        (case affordable mul (case db cat of None \<Rightarrow> [] | Some cs \<Rightarrow> cs) (mul budget pct) of
           [] \<Rightarrow> m cat | a # _ \<Rightarrow> Some a)"
      by (simp add: recommend_step_def Let_def split: list.splits)
    ultimately show ?thesis
      using True by simp
  next
    case False
    with Cons.prems have in_es: "(cat, pct) \<in> set es" and d: "distinct (map fst es)"
      and ne: "fst e \<noteq> cat"
      by (auto simp: image_iff)
    from Cons.IH [OF d in_es] ne show ?thesis
      by (simp add: recommend_step_other split: list.splits)
  qed
qed

lemma alloc_entries_distinct: "distinct (map fst (alloc_entries useCase))"
  by (simp add: alloc_entries_def allocations_gaming_def allocations_productivity_def
      allocations_general_def)

lemma recommended_at:
  assumes "getComponents w = Inr catalog" and "(cat, fraction) \<in> set (alloc_entries useCase)"
  shows "\<exists>recs. getRecommendedBuild mul w budget useCase performance = Inr recs
    \<and> recs cat =
        (case affordable mul (filter (\<lambda>c. category c = cat) catalog) (mul budget fraction) of
           [] \<Rightarrow> None | a # _ \<Rightarrow> Some a)"
proof -
  let ?db = "foldl group_step Map.empty catalog"
  let ?recs = "foldl (recommend_step mul ?db budget) Map.empty (alloc_entries useCase)"
  have "getRecommendedBuild mul w budget useCase performance = Inr ?recs"
    using assms(1) by (simp add: getRecommendedBuild_def getComponentsStructured_def)
  moreover have "?recs cat =
        (case affordable mul (filter (\<lambda>c. category c = cat) catalog) (mul budget fraction) of
           [] \<Rightarrow> None | a # _ \<Rightarrow> Some a)"
    using recommend_loop_at [OF alloc_entries_distinct assms(2), of mul ?db budget Map.empty]
    by (simp only: db_lookup)
  ultimately show ?thesis by blast
qed

lemma recommended_survivor:
  assumes "getComponents w = Inr catalog" and "(cat, fraction) \<in> set (alloc_entries useCase)"
  shows "\<exists>recs. getRecommendedBuild mul w budget useCase performance = Inr recs
    \<and> recs cat =
        (case affordable mul (filter (\<lambda>c. category c = cat) catalog) (mul budget fraction) of
           [] \<Rightarrow> None | a # _ \<Rightarrow> Some a)
    \<and> mset (map comp (affordable mul (filter (\<lambda>c. category c = cat) catalog)
                (mul budget fraction)))
        = mset (survivors catalog cat (mul (mul budget fraction) (115 / 100)))
    \<and> (survivors catalog cat (mul (mul budget fraction) (115 / 100)) = [] \<longrightarrow> recs cat = None)
    \<and> (survivors catalog cat (mul (mul budget fraction) (115 / 100)) \<noteq> [] \<longrightarrow>
         (\<exists>c \<in> set (survivors catalog cat (mul (mul budget fraction) (115 / 100))).
            recs cat = Some \<lparr>comp = c, lowestPrice = getLowestPrice c\<rparr>
            \<and> (\<forall>c' \<in> set (survivors catalog cat (mul (mul budget fraction) (115 / 100))).
                  num_of (getLowestPrice c') \<le> num_of (getLowestPrice c))))"
proof -
  let ?A = "affordable mul (filter (\<lambda>c. category c = cat) catalog) (mul budget fraction)"
  let ?S = "survivors catalog cat (mul (mul budget fraction) (115 / 100))"
  from recommended_at [OF assms] obtain recs where
    r: "getRecommendedBuild mul w budget useCase performance = Inr recs"
    and rc: "recs cat = (case ?A of [] \<Rightarrow> None | a # _ \<Rightarrow> Some a)"
    by blast
  have ms: "mset (map comp ?A) = mset ?S"
    by (simp only: affordable_mset survivors_filter)
  then have st: "comp ` set ?A = set ?S"
    by (metis set_map set_mset_mset)
  have none: "?S = [] \<longrightarrow> recs cat = None"
  proof
    assume "?S = []"
    with ms have "?A = []" by simp
    with rc show "recs cat = None" by simp
  qed
  have some: "?S \<noteq> [] \<longrightarrow>
         (\<exists>c \<in> set ?S. recs cat = Some \<lparr>comp = c, lowestPrice = getLowestPrice c\<rparr>
            \<and> (\<forall>c' \<in> set ?S. num_of (getLowestPrice c') \<le> num_of (getLowestPrice c)))"
  proof
    assume "?S \<noteq> []"
    with ms have "?A \<noteq> []" by auto
    then obtain a rest where A: "?A = a # rest" by (cases ?A) auto
    then have ain: "a \<in> set ?A" by simp
    then have lp: "lowestPrice a = getLowestPrice (comp a)" by (rule affordable_priced)
    then have a: "a = \<lparr>comp = comp a, lowestPrice = getLowestPrice (comp a)\<rparr>" by simp
    have "comp a \<in> set ?S" using ain st by blast
    moreover have "recs cat = Some \<lparr>comp = comp a, lowestPrice = getLowestPrice (comp a)\<rparr>"
      using rc A a by simp
    moreover have "\<forall>c' \<in> set ?S. num_of (getLowestPrice c') \<le> num_of (getLowestPrice (comp a))"
    proof
      fix c' assume "c' \<in> set ?S"
      with st obtain x where x: "x \<in> set ?A" and c': "c' = comp x" by blast
      from affordable_head [OF A] x have "num_of (lowestPrice x) \<le> num_of (lowestPrice a)"
        by blast
      with affordable_priced [OF x] lp c'
      show "num_of (getLowestPrice c') \<le> num_of (getLowestPrice (comp a))" by simp
    qed
    ultimately show "\<exists>c \<in> set ?S. recs cat = Some \<lparr>comp = c, lowestPrice = getLowestPrice c\<rparr>
            \<and> (\<forall>c' \<in> set ?S. num_of (getLowestPrice c') \<le> num_of (getLowestPrice c))"
      by blast
  qed
  from r rc ms none some show ?thesis by blast
qed


lemma example_fetch: "getComponents (live_world l) = Inr l" "getComponents (offline_world l) = Inr l"
  by (simp_all add: getComponents_def fallback_def live_world_def offline_world_def)

lemma example_lowest:
  "getLowestPrice cpu_28000 = Some 28000" "getLowestPrice cpu_35000 = Some 35000"
  by (simp_all add: cpu_28000_def cpu_35000_def getLowestPrice_def part_def offer_def
      offer_ok_def map_filter_simps)

lemma example_survivors:
  "survivors example_catalog Cpu 28750 = [cpu_28000]"
  "survivors example_catalog Ram 13800 = []"
  by (simp_all add: survivors_def example_catalog_def example_lowest)
     (simp_all add: cpu_28000_def cpu_35000_def part_def)

lemma example_entries:
  "(Cpu, 25 / 100) \<in> set (alloc_entries (js ''general''))"
  "(Ram, 12 / 100) \<in> set (alloc_entries (js ''general''))"
  "(Cpu, 1 / 4) \<in> set (alloc_entries (js ''general''))"
  by (simp_all add: alloc_entries_def allocations_general_def js_def)

lemma floor_rat_numeral: "\<lfloor>(numeral a :: rat) / numeral b\<rfloor> = numeral a div numeral b"
  by (metis floor_divide_of_int_eq of_int_numeral)

lemma ceiling_rat_numeral:
  "\<lceil>(numeral a :: rat) / numeral b\<rceil> = - (- numeral a div numeral b)"
proof -
  have "\<lceil>(numeral a :: rat) / numeral b\<rceil>
      = - \<lfloor>(of_int (- numeral a) :: rat) / of_int (numeral b)\<rfloor>"
    by (simp add: ceiling_def)
  then show ?thesis by (simp only: floor_divide_of_int_eq)
qed

text \<open>
  The ceiling of the general profile for the cpu at a budget of 100000, step by step:
  100000 * 0.25 is 25000, the double 1.15 is below 1.15, and 25000 * 1.15 is rounded to
  28749.999999999996.
\<close>

lemma dbl_100000: "dbl (100000) = 100000"
proof -
  have e: "max (floor_log2 \<bar>100000\<bar> - 52) (- 1074) = -36"
    by (simp add: floor_log2_def bits.simps floor_rat_numeral ceiling_rat_numeral)
  have r: "round_half_even (\<bar>100000\<bar> / pow2 (-36)) = 6871947673600000"
    by (simp add: pow2_def round_half_even_def Let_def floor_rat_numeral)
  show ?thesis
    unfolding dbl_def Let_def e r by (simp add: pow2_def)
qed

lemma dbl_25_100: "dbl (25 / 100) = 1 / 4"
proof -
  have e: "max (floor_log2 \<bar>25 / 100\<bar> - 52) (- 1074) = -54"
    by (simp add: floor_log2_def bits.simps floor_rat_numeral ceiling_rat_numeral)
  have r: "round_half_even (\<bar>25 / 100\<bar> / pow2 (-54)) = 4503599627370496"
    by (simp add: pow2_def round_half_even_def Let_def floor_rat_numeral)
  show ?thesis
    unfolding dbl_def Let_def e r by (simp add: pow2_def)
qed

lemma dbl_25000: "dbl (25000) = 25000"
proof -
  have e: "max (floor_log2 \<bar>25000\<bar> - 52) (- 1074) = -38"
    by (simp add: floor_log2_def bits.simps floor_rat_numeral ceiling_rat_numeral)
  have r: "round_half_even (\<bar>25000\<bar> / pow2 (-38)) = 6871947673600000"
    by (simp add: pow2_def round_half_even_def Let_def floor_rat_numeral)
  show ?thesis
    unfolding dbl_def Let_def e r by (simp add: pow2_def)
qed

lemma dbl_115_100: "dbl (115 / 100) = 2589569785738035 / 2251799813685248"
proof -
  have e: "max (floor_log2 \<bar>115 / 100\<bar> - 52) (- 1074) = -52"
    by (simp add: floor_log2_def bits.simps floor_rat_numeral ceiling_rat_numeral)
  have r: "round_half_even (\<bar>115 / 100\<bar> / pow2 (-52)) = 5179139571476070"
    by (simp add: pow2_def round_half_even_def Let_def floor_rat_numeral)
  show ?thesis
    unfolding dbl_def Let_def e r by (simp add: pow2_def)
qed

lemma dbl_product: "dbl (8092405580431359375 / 281474976710656) = 7902739824639999 / 274877906944"
proof -
  have e: "max (floor_log2 \<bar>8092405580431359375 / 281474976710656\<bar> - 52) (- 1074) = -38"
    by (simp add: floor_log2_def bits.simps floor_rat_numeral ceiling_rat_numeral)
  have r: "round_half_even (\<bar>8092405580431359375 / 281474976710656\<bar> / pow2 (-38)) = 7902739824639999"
    by (simp add: pow2_def round_half_even_def Let_def floor_rat_numeral)
  show ?thesis
    unfolding dbl_def Let_def e r by (simp add: pow2_def)
qed

lemma general_cpu_ceiling:
  "fmul (fmul 100000 (25 / 100)) (115 / 100) = 7902739824639999 / 274877906944"
proof -
  have "fmul 100000 (25 / 100) = dbl (100000 * (1 / 4))"
    by (simp only: fmul_def dbl_100000 dbl_25_100)
  also have "100000 * (1 / 4) = (25000 :: rat)" by simp
  finally have a: "fmul 100000 (25 / 100) = 25000"
    by (simp only: dbl_25000)
  have "fmul 25000 (115 / 100) = dbl (25000 * (2589569785738035 / 2251799813685248))"
    by (simp only: fmul_def dbl_25000 dbl_115_100)
  also have "25000 * (2589569785738035 / 2251799813685248) = (8092405580431359375 / 281474976710656 :: rat)" by simp
  finally show ?thesis
    by (simp only: a dbl_product)
qed

lemma general_cpu_ceiling_value:
  "fmul (fmul 100000 (1 / 4)) (23 / 20) = 7902739824639999 / 274877906944"
  using general_cpu_ceiling by simp










text \<open>
  Claim C6. \<open>getRecommendedBuild\<close> is not a function of its arguments alone: it reads
  the catalog from the network, and with the same budget, use case and performance it
  returns different builds when the network delivers different catalogs.
\<close>

theorem recommender_depends_on_fetch:
  "getRecommendedBuild (*) (live_world example_catalog) 100000 (js ''general'') (js ''balanced'')
     \<noteq> getRecommendedBuild (*) (live_world []) 100000 (js ''general'') (js ''balanced'')"
proof
  assume eq: "getRecommendedBuild (*) (live_world example_catalog) 100000 (js ''general'')
       (js ''balanced'')
     = getRecommendedBuild (*) (live_world []) 100000 (js ''general'') (js ''balanced'')"
  from recommended_survivor [OF example_fetch(1) [of example_catalog] example_entries(1),
     where mul = "(*)" and budget = 100000 and performance = "js ''balanced''"]
  obtain recs where r: "getRecommendedBuild (*) (live_world example_catalog) 100000
       (js ''general'') (js ''balanced'') = Inr recs" and "recs Cpu \<noteq> None"
    by (auto simp: example_survivors)
  moreover
  from recommended_survivor [OF example_fetch(1) [of "[]"] example_entries(1),
     where mul = "(*)" and budget = 100000 and performance = "js ''balanced''"]
  obtain recs' where "getRecommendedBuild (*) (live_world []) 100000
       (js ''general'') (js ''balanced'') = Inr recs'" and "recs' Cpu = None"
    by (auto simp: survivors_def)
  ultimately show False using eq by simp
qed

text \<open>
  Claim C6, as amended. The result of \<open>getRecommendedBuild\<close> is determined by the budget,
  the use case and what the fetch of the catalog delivers: two invocations that fetch
  the same catalog return the same build, whatever \<open>performance\<close> is; an invocation
  whose fetch fails fails with that error, and one whose fetch succeeds returns a build.
\<close>

theorem recommender_determined_by_fetched_catalog:
  "(getComponents w = getComponents w' \<longrightarrow>
      getRecommendedBuild mul w budget useCase performance
        = getRecommendedBuild mul w' budget useCase performance')
   \<and> (\<forall>e. getComponents w = Inl e \<longrightarrow>
          getRecommendedBuild mul w budget useCase performance = Inl e)
   \<and> (\<forall>l. getComponents w = Inr l \<longrightarrow>
          (\<exists>recs. getRecommendedBuild mul w budget useCase performance = Inr recs))"
  by (simp add: getRecommendedBuild_def getComponentsStructured_def)

theorem recommender_determined_by_fetched_catalog_witness:
  "live_world example_catalog \<noteq> offline_world example_catalog
   \<and> getComponents (live_world example_catalog) = getComponents (offline_world example_catalog)
   \<and> getRecommendedBuild (*) (live_world example_catalog) 100000 (js ''general'') (js ''balanced'')
       = getRecommendedBuild (*) (offline_world example_catalog) 100000 (js ''general'')
           (js ''quiet'')
   \<and> getRecommendedBuild (*) \<lparr>api_components = None, fallback_components = None\<rparr> 100000
         (js ''general'') (js ''balanced'') = Inl NetworkError"
  using recommender_determined_by_fetched_catalog
    [of "live_world example_catalog" "offline_world example_catalog" "(*)" 100000
        "js ''general''" "js ''balanced''" "js ''quiet''"]
    recommender_determined_by_fetched_catalog
    [of "\<lparr>api_components = None, fallback_components = None\<rparr>"
        "\<lparr>api_components = None, fallback_components = None\<rparr>" "(*)" 100000
        "js ''general''" "js ''balanced''" "js ''balanced''"]
  by (simp add: example_fetch) (simp add: live_world_def offline_world_def getComponents_def
      fallback_def)

section \<open>Properties of the search\<close>















section \<open>Properties of the share link\<close>

lemma btoa_fails_iff: "(btoa s = Inl InvalidCharacterError) = (\<exists>c \<in> set s. 0xFF < c)"
  by (simp add: btoa_def list_ex_iff)

text \<open>
  Claim C8. Encoding fails for a build that carries a character above U+00FF: the
  serialised text keeps the character, \<open>btoa\<close> throws, and \<open>shareBuild\<close> produces no
  link that could be decoded. The same build with an ASCII name is encoded.
\<close>

theorem share_link_fails_above_latin1:
  "0x2122 \<in> set (JSON_stringify trademark_build)
   \<and> shareBuild (js ''https://pcease.example'') trademark_build = Inl InvalidCharacterError
   \<and> shareBuild (js ''https://pcease.example'') plain_build
       = Inr (js ''https://pcease.example/builder?build=''
               @ b64_encode (map unat (JSON_stringify plain_build)))"
proof -
  have t: "0x2122 \<in> set (JSON_stringify trademark_build)"
    by (simp add: trademark_build_def build_json_def quote_def js_def
        is_high_surrogate_def is_low_surrogate_def)
  then have "\<exists>c \<in> set (JSON_stringify trademark_build). 0xFF < c"
    by (rule bexI [rotated]) simp
  then have "shareBuild (js ''https://pcease.example'') trademark_build
      = Inl InvalidCharacterError"
    by (simp add: shareBuild_def btoa_fails_iff [symmetric])
  moreover have "\<not> (\<exists>c \<in> set (JSON_stringify plain_build). 0xFF < c)"
    by (simp add: plain_build_def build_json_def quote_def js_def
        is_high_surrogate_def is_low_surrogate_def)
  then have "btoa (JSON_stringify plain_build)
      = Inr (b64_encode (map unat (JSON_stringify plain_build)))"
    by (simp add: btoa_def list_ex_iff)
  then have "shareBuild (js ''https://pcease.example'') plain_build
       = Inr (js ''https://pcease.example/builder?build=''
               @ b64_encode (map unat (JSON_stringify plain_build)))"
    by (simp add: shareBuild_def js_def)
  ultimately show ?thesis using t by simp
qed

end
